theory Spec2Isabelle
  imports Main "HOL-Library.AList"
begin

section \<open>The limiter-exec shim of stonebox (src/utils/unixResourceLimiter.py)\<close>

text \<open>
  The shim is one Python function, \<^verbatim>\<open>set_limits_and_exec\<close>. It reads three environment
  variables, applies two resource limits, decodes an argument vector from JSON, removes the
  three variables and replaces the process image. Everything it does goes through the
  interpreter's library and the operating system: \<^verbatim>\<open>int\<close>, \<^verbatim>\<open>json.loads\<close>,
  \<^verbatim>\<open>resource.setrlimit\<close> and \<^verbatim>\<open>os.execvp\<close>. The model takes these four as a
  parameter (a \<open>platform\<close>), so that every general theorem holds whatever they answer, and
  gives one concrete platform (section "A reference platform") on which runs are evaluated.
\<close>

subsection \<open>Values, exceptions, diagnostics\<close>

text \<open>A Python \<^verbatim>\<open>str\<close> is a sequence of code points.\<close>

type_synonym pystr = "nat list"

definition pystr_of :: "string \<Rightarrow> pystr" where
  "pystr_of s = map of_char s"

text \<open>What \<^verbatim>\<open>json.loads\<close> can return. A float is kept as the number literal it was
  read from (its floating-point value is not modelled); a dict as its items in insertion
  order.\<close>

datatype py_value =
    PyNone
  | PyBool bool
  | PyInt int
  | PyFloat pystr
  | PyStr pystr
  | PyList "py_value list"
  | PyDict "(pystr \<times> py_value) list"

text \<open>The exception classes that occur; each derives from \<^verbatim>\<open>Exception\<close>, so an
  \<^verbatim>\<open>except Exception\<close> clause catches every one of them. The message an exception
  carries is the library's and is not modelled.\<close>

datatype py_exn =
    ValueError
  | TypeError
  | IndexError
  | KeyError
  | OverflowError
  | JSONDecodeError
  | RecursionError
  | UnicodeEncodeError
  | OSError
  | PermissionError
  | FileNotFoundError
  | NotADirectoryError

text \<open>A printed line is the f-string it came from: its literal parts and the objects
  interpolated between them (\<^verbatim>\<open>{e}\<close>, \<^verbatim>\<open>{actual_command}\<close>), in order.\<close>

datatype piece = Lit string | Exn py_exn | Val py_value

type_synonym line = "piece list"

subsection \<open>The process and the platform\<close>

datatype rlimit_resource = RLIMIT_AS | RLIMIT_NPROC

text \<open>The limit table holds, for each resource, the pair (soft, hard) as the
  \<^verbatim>\<open>resource\<close> module writes it: Python ints, \<open>-1\<close> for no limit.\<close>

type_synonym rlimits = "rlimit_resource \<Rightarrow> int \<times> int"

record proc =
  environ :: "pystr \<rightharpoonup> pystr"
  rlimits :: rlimits
  stderr :: "line list"
  stdout :: "line list"

text \<open>
  The library and the operating system:
  \<^item> \<open>py_int s\<close> is \<^verbatim>\<open>int(s)\<close>: the integer, or the exception raised;
  \<^item> \<open>json_loads s\<close> is \<^verbatim>\<open>json.loads(s)\<close>: the value, or the exception raised;
  \<^item> \<open>setrlimit_raises r (soft, hard) table\<close> is the exception
    \<^verbatim>\<open>resource.setrlimit(r, (soft, hard))\<close> raises in a process whose limits are
    \<open>table\<close>, or \<open>None\<close> when the call is accepted;
  \<^item> \<open>execvp_raises file args env table\<close> is the exception \<^verbatim>\<open>os.execvp(file, args)\<close>
    raises in a process with environment \<open>env\<close> and limits \<open>table\<close>, or \<open>None\<close>
    when the image is replaced (the call does not return).
\<close>

record platform =
  py_int :: "pystr \<Rightarrow> py_exn + int"
  json_loads :: "pystr \<Rightarrow> py_exn + py_value"
  setrlimit_raises :: "rlimit_resource \<Rightarrow> int \<times> int \<Rightarrow> rlimits \<Rightarrow> py_exn option"
  execvp_raises :: "py_value \<Rightarrow> py_value \<Rightarrow> (pystr \<rightharpoonup> pystr) \<Rightarrow> rlimits \<Rightarrow> py_exn option"

text \<open>How a run ends: \<^verbatim>\<open>sys.exit(n)\<close>, the image replaced by \<open>file\<close> with argument
  vector \<open>args\<close>, or an exception that no handler of the function catches.\<close>

datatype outcome =
    Exited nat
  | Replaced py_value py_value
  | Uncaught py_exn

subsection \<open>The operations the function uses\<close>

definition STONEBOX_MEMORY_LIMIT_MB :: pystr where
  "STONEBOX_MEMORY_LIMIT_MB = pystr_of ''STONEBOX_MEMORY_LIMIT_MB''"

definition STONEBOX_PROCESS_LIMIT :: pystr where
  "STONEBOX_PROCESS_LIMIT = pystr_of ''STONEBOX_PROCESS_LIMIT''"

definition STONEBOX_EXEC_ARGS :: pystr where
  "STONEBOX_EXEC_ARGS = pystr_of ''STONEBOX_EXEC_ARGS''"

text \<open>\<^verbatim>\<open>print(l, file=sys.stderr)\<close>.\<close>

definition eprint :: "line \<Rightarrow> proc \<Rightarrow> proc" where
  "eprint l st = st\<lparr>stderr := stderr st @ [l]\<rparr>"

text \<open>The truth value of \<^verbatim>\<open>os.environ.get(k)\<close> in an \<^verbatim>\<open>if\<close>: \<^verbatim>\<open>None\<close> and the
  empty string are false.\<close>

fun truthy :: "pystr option \<Rightarrow> bool" where
  "truthy None = False"
| "truthy (Some s) = (s \<noteq> [])"

text \<open>\<^verbatim>\<open>resource.setrlimit(r, lim)\<close>: raises, or stores the pair.\<close>

definition setrlimit :: "platform \<Rightarrow> rlimit_resource \<Rightarrow> int \<times> int \<Rightarrow> proc \<Rightarrow> py_exn + proc" where
  "setrlimit p r lim st =
     (case setrlimit_raises p r lim (rlimits st) of
        Some e \<Rightarrow> Inl e
      | None \<Rightarrow> Inr (st\<lparr>rlimits := (rlimits st)(r := lim)\<rparr>))"

text \<open>\<^verbatim>\<open>if k in os.environ: del os.environ[k]\<close>.\<close>

definition del_environ :: "pystr \<Rightarrow> proc \<Rightarrow> proc" where
  "del_environ k st = st\<lparr>environ := (environ st)(k := None)\<rparr>"

text \<open>\<^verbatim>\<open>command_parts[0]\<close> on a decoded JSON value: the first element of a list, the
  first character of a string, \<^verbatim>\<open>IndexError\<close> when either is empty, \<^verbatim>\<open>KeyError\<close> on a
  dict (its keys are strings), \<^verbatim>\<open>TypeError\<close> on a value that is not subscriptable.\<close>

fun item0 :: "py_value \<Rightarrow> py_exn + py_value" where
  "item0 (PyList []) = Inl IndexError"
| "item0 (PyList (x # xs)) = Inr x"
| "item0 (PyStr []) = Inl IndexError"
| "item0 (PyStr (c # cs)) = Inr (PyStr [c])"
| "item0 (PyDict kvs) = Inl KeyError"
| "item0 PyNone = Inl TypeError"
| "item0 (PyBool b) = Inl TypeError"
| "item0 (PyInt i) = Inl TypeError"
| "item0 (PyFloat l) = Inl TypeError"

subsection \<open>\<^verbatim>\<open>set_limits_and_exec\<close>\<close>

text \<open>Lines 11 to 16: the memory limit.\<close>

definition set_memory_limit :: "platform \<Rightarrow> pystr option \<Rightarrow> proc \<Rightarrow> proc" where
  "set_memory_limit p memory_limit_mb_str st =
     (if truthy memory_limit_mb_str then
        (case memory_limit_mb_str of
           None \<Rightarrow> st
         | Some s \<Rightarrow>
             (case py_int p s of
                Inl e \<Rightarrow> eprint [Lit ''Stonebox Unix Limiter: Failed to set memory limit: '', Exn e] st
              | Inr n \<Rightarrow>
                  (let memory_limit_bytes = n * 1024 * 1024 in
                   case setrlimit p RLIMIT_AS (memory_limit_bytes, memory_limit_bytes) st of
                     Inl e \<Rightarrow> eprint [Lit ''Stonebox Unix Limiter: Failed to set memory limit: '', Exn e] st
                   | Inr st' \<Rightarrow> st')))
      else st)"

text \<open>Lines 18 to 23: the process limit.\<close>

definition set_process_limit :: "platform \<Rightarrow> pystr option \<Rightarrow> proc \<Rightarrow> proc" where
  "set_process_limit p process_limit_str st =
     (if truthy process_limit_str then
        (case process_limit_str of
           None \<Rightarrow> st
         | Some s \<Rightarrow>
             (case py_int p s of
                Inl e \<Rightarrow> eprint [Lit ''Stonebox Unix Limiter: Failed to set process limit: '', Exn e] st
              | Inr process_limit \<Rightarrow>
                  (case setrlimit p RLIMIT_NPROC (process_limit, process_limit) st of
                     Inl e \<Rightarrow> eprint [Lit ''Stonebox Unix Limiter: Failed to set process limit: '', Exn e] st
                   | Inr st' \<Rightarrow> st')))
      else st)"

text \<open>Lines 36 to 50: element 0 is the program, the three variables are removed, the image
  is replaced. An exception of \<^verbatim>\<open>command_parts[0]\<close> is outside every \<^verbatim>\<open>try\<close>.\<close>

definition scrub_and_exec :: "platform \<Rightarrow> py_value \<Rightarrow> proc \<Rightarrow> outcome \<times> proc" where
  "scrub_and_exec p command_parts st =
     (case item0 command_parts of
        Inl e \<Rightarrow> (Uncaught e, st)
      | Inr actual_command \<Rightarrow>
          (let actual_args = command_parts;
               st1 = del_environ STONEBOX_MEMORY_LIMIT_MB st;
               st2 = del_environ STONEBOX_PROCESS_LIMIT st1;
               st3 = del_environ STONEBOX_EXEC_ARGS st2
           in case execvp_raises p actual_command actual_args (environ st3) (rlimits st3) of
                None \<Rightarrow> (Replaced actual_command actual_args, st3)
              | Some e \<Rightarrow>
                  if e = FileNotFoundError then
                    (Exited 127,
                     eprint [Lit ''Stonebox Unix Limiter: Command not found: '', Val actual_command] st3)
                  else
                    (Exited 126,
                     eprint [Lit ''Stonebox Unix Limiter: Failed to exec command '', Val actual_command,
                             Lit '': '', Exn e] st3)))"

text \<open>Lines 25 to 50: the argument vector.\<close>

definition parse_and_exec :: "platform \<Rightarrow> pystr option \<Rightarrow> proc \<Rightarrow> outcome \<times> proc" where
  "parse_and_exec p command_args_json st =
     (if \<not> truthy command_args_json then
        (Exited 120, eprint [Lit ''Stonebox Unix Limiter: STONEBOX_EXEC_ARGS not set.''] st)
      else
        (case command_args_json of
           None \<Rightarrow> (Exited 120, eprint [Lit ''Stonebox Unix Limiter: STONEBOX_EXEC_ARGS not set.''] st)
         | Some s \<Rightarrow>
             (case json_loads p s of
                Inl e \<Rightarrow>
                  (Exited 121,
                   eprint [Lit ''Stonebox Unix Limiter: Failed to parse STONEBOX_EXEC_ARGS: '', Exn e] st)
              | Inr command_parts \<Rightarrow> scrub_and_exec p command_parts st)))"

text \<open>The whole function: the outcome and the process as it is then (at the exit, or
  as the new image inherits it).\<close>

definition set_limits_and_exec :: "platform \<Rightarrow> proc \<Rightarrow> outcome \<times> proc" where
  "set_limits_and_exec p st =
     (let memory_limit_mb_str = environ st STONEBOX_MEMORY_LIMIT_MB;
          process_limit_str = environ st STONEBOX_PROCESS_LIMIT;
          command_args_json = environ st STONEBOX_EXEC_ARGS
      in parse_and_exec p command_args_json
           (set_process_limit p process_limit_str
              (set_memory_limit p memory_limit_mb_str st)))"

subsection \<open>Notions the statements use\<close>

text \<open>The process after lines 11 to 23, when both limits have been tried.\<close>

definition limits_applied :: "platform \<Rightarrow> proc \<Rightarrow> proc" where
  "limits_applied p st =
     set_process_limit p (environ st STONEBOX_PROCESS_LIMIT)
       (set_memory_limit p (environ st STONEBOX_MEMORY_LIMIT_MB) st)"

text \<open>The three variables the shim consumes.\<close>

definition stonebox_variables :: "pystr set" where
  "stonebox_variables = {STONEBOX_MEMORY_LIMIT_MB, STONEBOX_PROCESS_LIMIT, STONEBOX_EXEC_ARGS}"

text \<open>The lines a run has added to the error stream of the process \<open>st\<close> it started
  from.\<close>

definition printed :: "proc \<Rightarrow> outcome \<times> proc \<Rightarrow> line list" where
  "printed st r = drop (length (stderr st)) (stderr (snd r))"

text \<open>A line carries the tag when it begins with the literal text
  \<^verbatim>\<open>Stonebox Unix Limiter: \<close>.\<close>

definition tagged :: "line \<Rightarrow> bool" where
  "tagged l =
     (case l of
        Lit s # rest \<Rightarrow> take 23 s = ''Stonebox Unix Limiter: ''
      | _ \<Rightarrow> False)"

text \<open>What can be seen of a run from outside: how it ended, the limit table, both
  streams.\<close>

definition observable :: "outcome \<times> proc \<Rightarrow> outcome \<times> rlimits \<times> line list \<times> line list" where
  "observable r = (fst r, rlimits (snd r), stderr (snd r), stdout (snd r))"

section \<open>A reference platform\<close>

text \<open>
  One platform, written out: CPython's \<^verbatim>\<open>int\<close> and \<^verbatim>\<open>json.loads\<close> on ASCII input,
  \<^verbatim>\<open>resource.setrlimit\<close> of an unprivileged process with 64-bit limits, and
  \<^verbatim>\<open>os.execvp\<close> over a small table of paths. The general theorems below do not depend on
  it; it is the platform on which concrete runs are evaluated.
\<close>

subsection \<open>\<^verbatim>\<open>int(s)\<close>\<close>

text \<open>Surrounding whitespace is dropped; an optional sign; then decimal digits, where a
  single underscore may stand between two digits. More than 4300 digits are refused (the
  interpreter's default limit for the conversion). Digits and spaces outside ASCII, which
  CPython also accepts, are not recognised here.\<close>

definition is_space :: "nat \<Rightarrow> bool" where
  "is_space c = ((9 \<le> c \<and> c \<le> 13) \<or> c = 32)"

definition is_digit :: "nat \<Rightarrow> bool" where
  "is_digit c = (48 \<le> c \<and> c \<le> 57)"

fun digits_value :: "bool \<Rightarrow> int \<Rightarrow> pystr \<Rightarrow> int option" where
  "digits_value after_digit acc [] = (if after_digit then Some acc else None)"
| "digits_value after_digit acc (c # cs) =
     (if is_digit c then digits_value True (acc * 10 + int (c - 48)) cs
      else if c = 95 \<and> after_digit then digits_value False acc cs
      else None)"

definition max_str_digits :: nat where
  "max_str_digits = 4300"

definition ref_int :: "pystr \<Rightarrow> py_exn + int" where
  "ref_int s =
     (let body = rev (dropWhile is_space (rev (dropWhile is_space s)));
          negative = (body \<noteq> [] \<and> hd body = 45);
          signed = (body \<noteq> [] \<and> (hd body = 45 \<or> hd body = 43));
          ds = (if signed then tl body else body)
      in if max_str_digits < length (filter is_digit ds) then Inl ValueError
         else (case digits_value False 0 ds of
                 None \<Rightarrow> Inl ValueError
               | Some n \<Rightarrow> Inr (if negative then - n else n)))"

subsection \<open>\<^verbatim>\<open>json.loads(s)\<close>\<close>

text \<open>The decoder of the \<^verbatim>\<open>json\<close> package: \<^verbatim>\<open>scanstring\<close>, the number pattern,
  \<^verbatim>\<open>scan_once\<close> with \<^verbatim>\<open>JSONArray\<close> and \<^verbatim>\<open>JSONObject\<close>, and \<^verbatim>\<open>decode\<close>. The three
  mutually recursive scanners count their calls down from a bound, which \<open>ref_json_loads\<close>
  takes from the input: two calls for each character, and two more. Running out is
  reported as the interpreter reports a recursion that is too deep; the interpreter's own
  limit on the depth of nesting is not part of this decoder.\<close>

definition is_ws :: "nat \<Rightarrow> bool" where
  "is_ws c = (c = 32 \<or> c = 9 \<or> c = 10 \<or> c = 13)"

definition skip_ws :: "pystr \<Rightarrow> pystr" where
  "skip_ws s = dropWhile is_ws s"

definition hex_digit :: "nat \<Rightarrow> nat option" where
  "hex_digit c =
     (if 48 \<le> c \<and> c \<le> 57 then Some (c - 48)
      else if 65 \<le> c \<and> c \<le> 70 then Some (c - 55)
      else if 97 \<le> c \<and> c \<le> 102 then Some (c - 87)
      else None)"

definition decode_uXXXX :: "pystr \<Rightarrow> nat option" where
  "decode_uXXXX s =
     (case map hex_digit (take 4 s) of
        [Some a, Some b, Some c, Some d] \<Rightarrow> Some (((a * 16 + b) * 16 + c) * 16 + d)
      | _ \<Rightarrow> None)"

definition backslash :: "nat \<Rightarrow> nat option" where
  "backslash e =
     (if e = 34 \<or> e = 92 \<or> e = 47 then Some e
      else if e = 98 then Some 8
      else if e = 102 then Some 12
      else if e = 110 then Some 10
      else if e = 114 then Some 13
      else if e = 116 then Some 9
      else None)"

fun scanstring :: "pystr \<Rightarrow> pystr \<Rightarrow> (pystr \<times> pystr) option" where
  "scanstring acc [] = None"
| "scanstring acc (c # cs) =
     (if c = 34 then Some (rev acc, cs)
      else if c < 32 then None
      else if c \<noteq> 92 then scanstring (c # acc) cs
      else (case cs of
              [] \<Rightarrow> None
            | e # es \<Rightarrow>
                if e \<noteq> 117 then
                  (case backslash e of
                     None \<Rightarrow> None
                   | Some d \<Rightarrow> scanstring (d # acc) es)
                else
                  (case decode_uXXXX es of
                     None \<Rightarrow> None
                   | Some uni \<Rightarrow>
                       if 55296 \<le> uni \<and> uni \<le> 56319 \<and> take 2 (drop 4 es) = [92, 117] then
                         (case decode_uXXXX (drop 6 es) of
                            None \<Rightarrow> None
                          | Some uni2 \<Rightarrow>
                              if 56320 \<le> uni2 \<and> uni2 \<le> 57343 then
                                scanstring ((65536 + (uni - 55296) * 1024 + (uni2 - 56320)) # acc)
                                  (drop 10 es)
                              else scanstring (uni # acc) (drop 4 es))
                       else scanstring (uni # acc) (drop 4 es))))"

text \<open>The number pattern
  \<^verbatim>\<open>(-?(?:0|[1-9][0-9]*))(\.[0-9]+)?([eE][-+]?[0-9]+)?\<close>, group by group: each
  function gives the text its group matches and the rest of the input.\<close>

definition match_integer :: "pystr \<Rightarrow> (pystr \<times> pystr) option" where
  "match_integer s =
     (case s of
        [] \<Rightarrow> None
      | c # cs \<Rightarrow>
          if c = 48 then Some ([48], cs)
          else if is_digit c then Some (takeWhile is_digit s, dropWhile is_digit s)
          else None)"

definition match_signed_integer :: "pystr \<Rightarrow> (pystr \<times> pystr) option" where
  "match_signed_integer s =
     (case s of
        [] \<Rightarrow> None
      | c # cs \<Rightarrow>
          if c = 45 then
            (case match_integer cs of
               None \<Rightarrow> None
             | Some (ds, r) \<Rightarrow> Some (45 # ds, r))
          else match_integer s)"

definition match_frac :: "pystr \<Rightarrow> pystr \<times> pystr" where
  "match_frac s =
     (case s of
        c # d # ds \<Rightarrow>
          if c = 46 \<and> is_digit d then
            (c # takeWhile is_digit (d # ds), dropWhile is_digit (d # ds))
          else ([], s)
      | _ \<Rightarrow> ([], s))"

definition match_exp_digits :: "pystr \<Rightarrow> pystr \<Rightarrow> pystr \<Rightarrow> pystr \<times> pystr" where
  "match_exp_digits s mark r =
     (case r of
        d # ds \<Rightarrow>
          if is_digit d then (mark @ takeWhile is_digit r, dropWhile is_digit r)
          else ([], s)
      | [] \<Rightarrow> ([], s))"

definition match_exp :: "pystr \<Rightarrow> pystr \<times> pystr" where
  "match_exp s =
     (case s of
        [] \<Rightarrow> ([], s)
      | c # cs \<Rightarrow>
          if c = 101 \<or> c = 69 then
            (case cs of
               [] \<Rightarrow> ([], s)
             | x # xs \<Rightarrow>
                 if x = 45 \<or> x = 43 then match_exp_digits s [c, x] xs
                 else match_exp_digits s [c] cs)
          else ([], s))"

definition match_number :: "pystr \<Rightarrow> (pystr \<times> pystr \<times> pystr \<times> pystr) option" where
  "match_number s =
     (case match_signed_integer s of
        None \<Rightarrow> None
      | Some (integer, r) \<Rightarrow>
          Some (integer, fst (match_frac r), fst (match_exp (snd (match_frac r))),
                snd (match_exp (snd (match_frac r)))))"

text \<open>The value of an integer literal of the number pattern, whatever its length.\<close>

definition decimal :: "pystr \<Rightarrow> int" where
  "decimal ds = foldl (\<lambda>acc c. acc * 10 + int (c - 48)) 0 ds"

definition int_literal :: "pystr \<Rightarrow> int" where
  "int_literal s =
     (case s of
        [] \<Rightarrow> 0
      | c # cs \<Rightarrow> if c = 45 then - decimal cs else decimal s)"

text \<open>The scanners take a flag. With \<open>decoder\<close> set they are those of \<^verbatim>\<open>json.loads\<close>,
  which go beyond the JSON grammar in two ways: the constants \<^verbatim>\<open>NaN\<close>, \<^verbatim>\<open>Infinity\<close> and
  \<^verbatim>\<open>-Infinity\<close> are values, and an integer is converted by \<^verbatim>\<open>int\<close>, which refuses one
  that is too long. Without the flag they follow the grammar alone.\<close>

fun scan_once :: "bool \<Rightarrow> nat \<Rightarrow> pystr \<Rightarrow> py_exn + py_value \<times> pystr"
  and parse_array :: "bool \<Rightarrow> nat \<Rightarrow> py_value list \<Rightarrow> pystr \<Rightarrow> py_exn + py_value \<times> pystr"
  and parse_object ::
    "bool \<Rightarrow> nat \<Rightarrow> (pystr \<times> py_value) list \<Rightarrow> pystr \<Rightarrow> py_exn + py_value \<times> pystr"
where
  "scan_once decoder 0 s = Inl RecursionError"
| "scan_once decoder (Suc n) s =
     (if s = [] then Inl JSONDecodeError
      else if hd s = 34 then
        (case scanstring [] (tl s) of
           None \<Rightarrow> Inl JSONDecodeError
         | Some (t, r) \<Rightarrow> Inr (PyStr t, r))
      else if hd s = 123 then
        (if take 1 (skip_ws (tl s)) = [125] then Inr (PyDict [], tl (skip_ws (tl s)))
         else parse_object decoder n [] (skip_ws (tl s)))
      else if hd s = 91 then
        (if take 1 (skip_ws (tl s)) = [93] then Inr (PyList [], tl (skip_ws (tl s)))
         else parse_array decoder n [] (skip_ws (tl s)))
      else if take 4 s = pystr_of ''null'' then Inr (PyNone, drop 4 s)
      else if take 4 s = pystr_of ''true'' then Inr (PyBool True, drop 4 s)
      else if take 5 s = pystr_of ''false'' then Inr (PyBool False, drop 5 s)
      else
        (case match_number s of
           Some (integer, frac, ex, r) \<Rightarrow>
             if frac \<noteq> [] \<or> ex \<noteq> [] then Inr (PyFloat (integer @ frac @ ex), r)
             else if decoder then
               (case ref_int integer of
                  Inl e \<Rightarrow> Inl e
                | Inr i \<Rightarrow> Inr (PyInt i, r))
             else Inr (PyInt (int_literal integer), r)
         | None \<Rightarrow>
             if decoder \<and> take 3 s = pystr_of ''NaN'' then Inr (PyFloat (take 3 s), drop 3 s)
             else if decoder \<and> take 8 s = pystr_of ''Infinity'' then
               Inr (PyFloat (take 8 s), drop 8 s)
             else if decoder \<and> take 9 s = pystr_of ''-Infinity'' then
               Inr (PyFloat (take 9 s), drop 9 s)
             else Inl JSONDecodeError))"
| "parse_array decoder 0 values s = Inl RecursionError"
| "parse_array decoder (Suc n) values s =
     (case scan_once decoder n s of
        Inl e \<Rightarrow> Inl e
      | Inr (v, r) \<Rightarrow>
          if take 1 (skip_ws r) = [93] then Inr (PyList (values @ [v]), tl (skip_ws r))
          else if take 1 (skip_ws r) = [44] then
            parse_array decoder n (values @ [v]) (skip_ws (tl (skip_ws r)))
          else Inl JSONDecodeError)"
| "parse_object decoder 0 pairs s = Inl RecursionError"
| "parse_object decoder (Suc n) pairs s =
     (if take 1 s \<noteq> [34] then Inl JSONDecodeError
      else
        (case scanstring [] (tl s) of
           None \<Rightarrow> Inl JSONDecodeError
         | Some (key, r) \<Rightarrow>
             if take 1 (skip_ws r) \<noteq> [58] then Inl JSONDecodeError
             else
               (case scan_once decoder n (skip_ws (tl (skip_ws r))) of
                  Inl e \<Rightarrow> Inl e
                | Inr (v, r') \<Rightarrow>
                    if take 1 (skip_ws r') = [125] then
                      Inr (PyDict (AList.update key v pairs), tl (skip_ws r'))
                    else if take 1 (skip_ws r') = [44] then
                      parse_object decoder n (AList.update key v pairs) (skip_ws (tl (skip_ws r')))
                    else Inl JSONDecodeError)))"

definition ref_json_loads :: "pystr \<Rightarrow> py_exn + py_value" where
  "ref_json_loads s =
     (if take 1 s = [65279] then Inl JSONDecodeError
      else
        (case scan_once True (Suc (Suc (length s + length s))) (skip_ws s) of
           Inl e \<Rightarrow> Inl e
         | Inr (v, r) \<Rightarrow> if skip_ws r = [] then Inr v else Inl JSONDecodeError))"

text \<open>Valid JSON, in the words of the specification: a text of the JSON grammar
  (RFC 8259), one value with whitespace around it. It is what the scanners accept without
  the decoder's additions.\<close>

definition valid_json :: "pystr \<Rightarrow> bool" where
  "valid_json s =
     (case scan_once False (Suc (Suc (length s + length s))) (skip_ws s) of
        Inl e \<Rightarrow> False
      | Inr (v, r) \<Rightarrow> skip_ws r = [])"

subsection \<open>\<^verbatim>\<open>resource.setrlimit\<close>\<close>

text \<open>The module converts each bound to a C \<^verbatim>\<open>long\<close> (\<^verbatim>\<open>OverflowError\<close> outside 64
  signed bits) and hands its unsigned image to the kernel, which refuses a soft bound above
  the hard one and, for a process without privilege, a hard bound above the present one;
  the module raises \<^verbatim>\<open>ValueError\<close> for both.\<close>

definition fits_long :: "int \<Rightarrow> bool" where
  "fits_long v = (- (2 ^ 63) \<le> v \<and> v < 2 ^ 63)"

definition rlim_t :: "int \<Rightarrow> int" where
  "rlim_t v = v mod 2 ^ 64"

definition ref_setrlimit_raises :: "rlimit_resource \<Rightarrow> int \<times> int \<Rightarrow> rlimits \<Rightarrow> py_exn option" where
  "ref_setrlimit_raises r lim table =
     (if \<not> fits_long (fst lim) \<or> \<not> fits_long (snd lim) then Some OverflowError
      else if rlim_t (snd lim) < rlim_t (fst lim) then Some ValueError
      else if rlim_t (snd (table r)) < rlim_t (snd lim) then Some ValueError
      else None)"

subsection \<open>\<^verbatim>\<open>os.execvp\<close>\<close>

text \<open>What the kernel answers when asked to execute a path: three programs exist, one
  file may not be executed, a path that goes on below one of these four files is refused
  because the file is not a directory, and no other path is found.\<close>

definition below_file :: "pystr \<Rightarrow> pystr \<Rightarrow> bool" where
  "below_file file path = (take (Suc (length file)) path = file @ [47])"

definition ref_execve :: "pystr \<Rightarrow> py_exn option" where
  "ref_execve path =
     (if path = pystr_of ''/bin/echo'' \<or> path = pystr_of ''/bin/sh''
         \<or> path = pystr_of ''/usr/bin/env'' then None
      else if path = pystr_of ''/etc/passwd'' then Some PermissionError
      else if below_file (pystr_of ''/bin/echo'') path \<or> below_file (pystr_of ''/bin/sh'') path
         \<or> below_file (pystr_of ''/usr/bin/env'') path
         \<or> below_file (pystr_of ''/etc/passwd'') path then Some NotADirectoryError
      else Some FileNotFoundError)"

text \<open>A string the file-system encoding cannot encode holds a lone surrogate (those that
  stand for an undecodable byte apart).\<close>

definition encodable :: "pystr \<Rightarrow> bool" where
  "encodable s = list_all (\<lambda>c. c < 55296 \<or> 57343 < c \<or> (56448 \<le> c \<and> c \<le> 56575)) s"

text \<open>The conversion of one argument: a \<^verbatim>\<open>str\<close>, encodable, without a null.\<close>

definition arg_raises :: "py_value \<Rightarrow> py_exn option" where
  "arg_raises a =
     (case a of
        PyStr s \<Rightarrow>
          if \<not> encodable s then Some UnicodeEncodeError
          else if 0 \<in> set s then Some ValueError
          else None
      | _ \<Rightarrow> Some TypeError)"

fun arglist_raises :: "py_value list \<Rightarrow> py_exn option" where
  "arglist_raises [] = None"
| "arglist_raises (a # as) =
     (case arg_raises a of
        Some e \<Rightarrow> Some e
      | None \<Rightarrow> arglist_raises as)"

text \<open>\<^verbatim>\<open>os.execv(path, args)\<close>: the checks of the module in their order, then the
  kernel.\<close>

definition ref_execv :: "pystr \<Rightarrow> py_value \<Rightarrow> py_exn option" where
  "ref_execv path args =
     (case arg_raises (PyStr path) of
        Some e \<Rightarrow> Some e
      | None \<Rightarrow>
          (case args of
             PyList argv \<Rightarrow>
               if argv = [] then Some ValueError
               else (case arglist_raises argv of
                       Some e \<Rightarrow> Some e
                     | None \<Rightarrow>
                         if hd argv = PyStr [] then Some ValueError
                         else ref_execve path)
           | _ \<Rightarrow> Some TypeError))"

definition is_OSError :: "py_exn \<Rightarrow> bool" where
  "is_OSError e =
     (e = OSError \<or> e = PermissionError \<or> e = FileNotFoundError \<or> e = NotADirectoryError)"

text \<open>\<^verbatim>\<open>PATH.split(':')\<close>, as the first field and the fields after it.\<close>

fun split_path :: "pystr \<Rightarrow> pystr \<times> pystr list" where
  "split_path [] = ([], [])"
| "split_path (c # cs) =
     (if c = 58 then ([], fst (split_path cs) # snd (split_path cs))
      else (c # fst (split_path cs), snd (split_path cs)))"

text \<open>\<^verbatim>\<open>os.path.join(dir, file)\<close> for a \<open>file\<close> without a slash.\<close>

definition path_join :: "pystr \<Rightarrow> pystr \<Rightarrow> pystr" where
  "path_join dir file = (if dir = [] \<or> last dir = 47 then dir @ file else dir @ [47] @ file)"

text \<open>The loop of \<^verbatim>\<open>os._execvpe\<close> over the directories of the search path: a missing
  file moves on, another \<^verbatim>\<open>OSError\<close> is kept (the first one) and moves on, anything else
  is raised at once; at the end the kept error is raised, or else the last one.\<close>

fun search_path :: "pystr \<Rightarrow> pystr list \<Rightarrow> pystr \<Rightarrow> py_value \<Rightarrow> py_exn option \<Rightarrow> py_exn option" where
  "search_path dir dirs file args saved_exc =
     (case ref_execv (path_join dir file) args of
        None \<Rightarrow> None
      | Some e \<Rightarrow>
          if \<not> is_OSError e then Some e
          else
            (case dirs of
               [] \<Rightarrow> (case saved_exc of Some x \<Rightarrow> Some x | None \<Rightarrow> Some e)
             | d # ds \<Rightarrow>
                 search_path d ds file args
                   (if e = FileNotFoundError \<or> e = NotADirectoryError then saved_exc
                    else (case saved_exc of Some x \<Rightarrow> Some x | None \<Rightarrow> Some e))))"

definition PATH :: pystr where
  "PATH = pystr_of ''PATH''"

definition defpath :: pystr where
  "defpath = pystr_of ''/bin:/usr/bin''"

definition ref_execvp_raises ::
  "py_value \<Rightarrow> py_value \<Rightarrow> (pystr \<rightharpoonup> pystr) \<Rightarrow> rlimits \<Rightarrow> py_exn option" where
  "ref_execvp_raises file args env table =
     (case file of
        PyStr f \<Rightarrow>
          if 47 \<in> set f then ref_execv f args
          else if \<not> encodable f then Some UnicodeEncodeError
          else
            (let path_list = split_path (case env PATH of None \<Rightarrow> defpath | Some v \<Rightarrow> v)
             in search_path (fst path_list) (snd path_list) f args None)
      | _ \<Rightarrow> Some TypeError)"

definition reference :: platform where
  "reference =
     \<lparr>py_int = ref_int, json_loads = ref_json_loads,
      setrlimit_raises = ref_setrlimit_raises, execvp_raises = ref_execvp_raises\<rparr>"

text \<open>A freshly started process: the given environment, no limits, nothing printed.\<close>

definition started :: "(pystr \<times> pystr) list \<Rightarrow> proc" where
  "started env =
     \<lparr>environ = map_of env, rlimits = (\<lambda>r. (- 1, - 1)), stderr = [], stdout = []\<rparr>"

section \<open>Lemmas about the steps\<close>

subsection \<open>The three variables and the scrub\<close>

lemma variables_distinct:
  "STONEBOX_MEMORY_LIMIT_MB \<noteq> STONEBOX_PROCESS_LIMIT"
  "STONEBOX_MEMORY_LIMIT_MB \<noteq> STONEBOX_EXEC_ARGS"
  "STONEBOX_PROCESS_LIMIT \<noteq> STONEBOX_EXEC_ARGS"
  "STONEBOX_PROCESS_LIMIT \<noteq> STONEBOX_MEMORY_LIMIT_MB"
  "STONEBOX_EXEC_ARGS \<noteq> STONEBOX_MEMORY_LIMIT_MB"
  "STONEBOX_EXEC_ARGS \<noteq> STONEBOX_PROCESS_LIMIT"
  by (simp_all add: STONEBOX_MEMORY_LIMIT_MB_def STONEBOX_PROCESS_LIMIT_def
        STONEBOX_EXEC_ARGS_def pystr_of_def)

lemma variables_member:
  "STONEBOX_MEMORY_LIMIT_MB \<in> stonebox_variables"
  "STONEBOX_PROCESS_LIMIT \<in> stonebox_variables"
  "STONEBOX_EXEC_ARGS \<in> stonebox_variables"
  by (simp_all add: stonebox_variables_def)

lemma scrub_state:
  "del_environ STONEBOX_EXEC_ARGS (del_environ STONEBOX_PROCESS_LIMIT
      (del_environ STONEBOX_MEMORY_LIMIT_MB st))
   = st\<lparr>environ := environ st |` (- stonebox_variables)\<rparr>"
proof -
  have "(environ st)(STONEBOX_MEMORY_LIMIT_MB := None, STONEBOX_PROCESS_LIMIT := None,
          STONEBOX_EXEC_ARGS := None) = environ st |` (- stonebox_variables)"
    by (auto simp: restrict_map_def fun_eq_iff stonebox_variables_def)
  then show ?thesis
    by (simp add: del_environ_def)
qed

lemma restrict_without_variable:
  assumes "k \<in> stonebox_variables"
  shows "(m(k := x)) |` (- stonebox_variables) = m |` (- stonebox_variables)"
  using assms by (auto simp: restrict_map_def fun_eq_iff)

lemma scrub_and_exec_unfold:
  "scrub_and_exec p v st =
     (case item0 v of
        Inl e \<Rightarrow> (Uncaught e, st)
      | Inr c \<Rightarrow>
          (case execvp_raises p c v (environ st |` (- stonebox_variables)) (rlimits st) of
             None \<Rightarrow> (Replaced c v, st\<lparr>environ := environ st |` (- stonebox_variables)\<rparr>)
           | Some e \<Rightarrow>
               if e = FileNotFoundError then
                 (Exited 127,
                  eprint [Lit ''Stonebox Unix Limiter: Command not found: '', Val c]
                    (st\<lparr>environ := environ st |` (- stonebox_variables)\<rparr>))
               else
                 (Exited 126,
                  eprint [Lit ''Stonebox Unix Limiter: Failed to exec command '', Val c,
                          Lit '': '', Exn e]
                    (st\<lparr>environ := environ st |` (- stonebox_variables)\<rparr>))))"
  by (simp add: scrub_and_exec_def Let_def scrub_state split: sum.splits option.splits)

subsection \<open>What each step leaves alone\<close>

text \<open>The limit steps touch only the limit table and the error stream; the last step touches only the environment and the error stream.\<close>

lemma set_memory_limit_frame:
  "environ (set_memory_limit p v st) = environ st"
  "stdout (set_memory_limit p v st) = stdout st"
  "rlimits (set_memory_limit p v st) RLIMIT_NPROC = rlimits st RLIMIT_NPROC"
  by (auto simp: set_memory_limit_def setrlimit_def eprint_def Let_def split: option.splits sum.splits)

lemma set_process_limit_frame:
  "environ (set_process_limit p v st) = environ st"
  "stdout (set_process_limit p v st) = stdout st"
  "rlimits (set_process_limit p v st) RLIMIT_AS = rlimits st RLIMIT_AS"
  by (auto simp: set_process_limit_def setrlimit_def eprint_def Let_def split: option.splits sum.splits)

lemma limits_applied_frame:
  "environ (limits_applied p st) = environ st"
  "stdout (limits_applied p st) = stdout st"
  by (simp_all add: limits_applied_def set_memory_limit_frame set_process_limit_frame)

lemma set_limits_and_exec_alt:
  "set_limits_and_exec p st = parse_and_exec p (environ st STONEBOX_EXEC_ARGS) (limits_applied p st)"
  by (simp add: set_limits_and_exec_def limits_applied_def)

lemma parse_and_exec_frame:
  "rlimits (snd (parse_and_exec p v st)) = rlimits st"
  "stdout (snd (parse_and_exec p v st)) = stdout st"
  by (auto simp: parse_and_exec_def scrub_and_exec_unfold eprint_def
        split: option.splits sum.splits)

lemma setrlimit_ignores_execvp:
  "setrlimit (p\<lparr>execvp_raises := x\<rparr>) = setrlimit p"
  by (simp add: setrlimit_def fun_eq_iff)

lemma limit_steps_ignore_execvp:
  "set_memory_limit (p\<lparr>execvp_raises := x\<rparr>) v st = set_memory_limit p v st"
  "set_process_limit (p\<lparr>execvp_raises := x\<rparr>) v st = set_process_limit p v st"
  by (simp_all add: set_memory_limit_def set_process_limit_def setrlimit_ignores_execvp
        cong: option.case_cong sum.case_cong)

subsection \<open>An accepted limit\<close>

lemma set_memory_limit_accepted:
  assumes "s \<noteq> []" and "py_int p s = Inr n"
    and "setrlimit_raises p RLIMIT_AS (n * 1024 * 1024, n * 1024 * 1024) (rlimits st) = None"
  shows "set_memory_limit p (Some s) st
    = st\<lparr>rlimits := (rlimits st)(RLIMIT_AS := (n * 1024 * 1024, n * 1024 * 1024))\<rparr>"
  using assms by (simp add: set_memory_limit_def setrlimit_def Let_def)

lemma set_process_limit_accepted:
  assumes "s \<noteq> []" and "py_int p s = Inr n"
    and "setrlimit_raises p RLIMIT_NPROC (n, n) (rlimits st) = None"
  shows "set_process_limit p (Some s) st = st\<lparr>rlimits := (rlimits st)(RLIMIT_NPROC := (n, n))\<rparr>"
  using assms by (simp add: set_process_limit_def setrlimit_def)

subsection \<open>The error stream only grows, by tagged lines\<close>

lemma set_memory_limit_stderr:
  "\<exists>ls. stderr (set_memory_limit p v st) = stderr st @ ls \<and> list_all tagged ls"
  by (auto simp: set_memory_limit_def setrlimit_def eprint_def tagged_def Let_def
        split: option.splits sum.splits)

lemma set_process_limit_stderr:
  "\<exists>ls. stderr (set_process_limit p v st) = stderr st @ ls \<and> list_all tagged ls"
  by (auto simp: set_process_limit_def setrlimit_def eprint_def tagged_def
        split: option.splits sum.splits)

lemma parse_and_exec_stderr:
  "\<exists>ls. stderr (snd (parse_and_exec p v st)) = stderr st @ ls \<and> list_all tagged ls"
  by (auto simp: parse_and_exec_def scrub_and_exec_unfold eprint_def tagged_def
        split: option.splits sum.splits)

subsection \<open>Steps started from processes that agree\<close>

text \<open>Two processes with the same limit table, and the same environment once the three variables are taken out, go through the same steps and print the same lines.\<close>

lemma set_memory_limit_agree:
  assumes "rlimits a = rlimits b"
  shows "rlimits (set_memory_limit p v a) = rlimits (set_memory_limit p v b)"
    and "\<exists>ls. stderr (set_memory_limit p v a) = stderr a @ ls
            \<and> stderr (set_memory_limit p v b) = stderr b @ ls"
  using assms
  by (auto simp: set_memory_limit_def setrlimit_def eprint_def Let_def
        split: option.splits sum.splits)

lemma set_process_limit_agree:
  assumes "rlimits a = rlimits b"
  shows "rlimits (set_process_limit p v a) = rlimits (set_process_limit p v b)"
    and "\<exists>ls. stderr (set_process_limit p v a) = stderr a @ ls
            \<and> stderr (set_process_limit p v b) = stderr b @ ls"
  using assms
  by (auto simp: set_process_limit_def setrlimit_def eprint_def
        split: option.splits sum.splits)

lemma parse_and_exec_agree:
  assumes "rlimits a = rlimits b"
    and "environ a |` (- stonebox_variables) = environ b |` (- stonebox_variables)"
  shows "fst (parse_and_exec p v a) = fst (parse_and_exec p v b)"
    and "\<exists>ls. stderr (snd (parse_and_exec p v a)) = stderr a @ ls
            \<and> stderr (snd (parse_and_exec p v b)) = stderr b @ ls"
  using assms
  by (auto simp: parse_and_exec_def scrub_and_exec_unfold eprint_def
        split: option.splits sum.splits)

lemma later_steps_agree:
  assumes "rlimits a = rlimits b"
    and "environ a |` (- stonebox_variables) = environ b |` (- stonebox_variables)"
  shows "fst (parse_and_exec p v (set_process_limit p w a))
           = fst (parse_and_exec p v (set_process_limit p w b))"
    and "rlimits (snd (parse_and_exec p v (set_process_limit p w a)))
           = rlimits (snd (parse_and_exec p v (set_process_limit p w b)))"
    and "\<exists>ls. stderr (snd (parse_and_exec p v (set_process_limit p w a))) = stderr a @ ls
            \<and> stderr (snd (parse_and_exec p v (set_process_limit p w b))) = stderr b @ ls"
proof -
  have r: "rlimits (set_process_limit p w a) = rlimits (set_process_limit p w b)"
    using assms(1) by (rule set_process_limit_agree)
  have e: "environ (set_process_limit p w a) |` (- stonebox_variables)
      = environ (set_process_limit p w b) |` (- stonebox_variables)"
    using assms(2) by (simp add: set_process_limit_frame)
  show "fst (parse_and_exec p v (set_process_limit p w a))
           = fst (parse_and_exec p v (set_process_limit p w b))"
    using r e by (rule parse_and_exec_agree)
  show "rlimits (snd (parse_and_exec p v (set_process_limit p w a)))
           = rlimits (snd (parse_and_exec p v (set_process_limit p w b)))"
    using r by (simp add: parse_and_exec_frame)
  obtain l1 where l1: "stderr (set_process_limit p w a) = stderr a @ l1"
      "stderr (set_process_limit p w b) = stderr b @ l1"
    using set_process_limit_agree(2) [OF assms(1)] by blast
  obtain l2 where l2: "stderr (snd (parse_and_exec p v (set_process_limit p w a)))
        = stderr (set_process_limit p w a) @ l2"
      "stderr (snd (parse_and_exec p v (set_process_limit p w b)))
        = stderr (set_process_limit p w b) @ l2"
    using parse_and_exec_agree(2) [OF r e] by blast
  show "\<exists>ls. stderr (snd (parse_and_exec p v (set_process_limit p w a))) = stderr a @ ls
            \<and> stderr (snd (parse_and_exec p v (set_process_limit p w b))) = stderr b @ ls"
    using l1 l2 by simp
qed

subsection \<open>A limit that fails, a limit variable that is empty\<close>

lemma memory_limit_failure:
  assumes "environ st STONEBOX_MEMORY_LIMIT_MB = Some s" and "s \<noteq> []"
    and "py_int p s = Inl e
         \<or> (\<exists>n. py_int p s = Inr n
               \<and> setrlimit_raises p RLIMIT_AS (n * 1024 * 1024, n * 1024 * 1024) (rlimits st) = Some e)"
  defines "msg \<equiv> [Lit ''Stonebox Unix Limiter: Failed to set memory limit: '', Exn e]"
    and "st' \<equiv> st\<lparr>environ := (environ st)(STONEBOX_MEMORY_LIMIT_MB := None)\<rparr>"
  shows "set_memory_limit p (environ st STONEBOX_MEMORY_LIMIT_MB) st = eprint msg st"
    and "fst (set_limits_and_exec p st) = fst (set_limits_and_exec p st')"
    and "rlimits (snd (set_limits_and_exec p st)) = rlimits (snd (set_limits_and_exec p st'))"
    and "printed st (set_limits_and_exec p st) = msg # printed st (set_limits_and_exec p st')"
proof -
  show step: "set_memory_limit p (environ st STONEBOX_MEMORY_LIMIT_MB) st = eprint msg st"
    using assms(1-3) by (auto simp: set_memory_limit_def setrlimit_def Let_def msg_def)
  have step': "set_memory_limit p (environ st' STONEBOX_MEMORY_LIMIT_MB) st' = st'"
    by (simp add: st'_def set_memory_limit_def)
  have vars: "environ st' STONEBOX_PROCESS_LIMIT = environ st STONEBOX_PROCESS_LIMIT"
    "environ st' STONEBOX_EXEC_ARGS = environ st STONEBOX_EXEC_ARGS"
    by (simp_all add: st'_def variables_distinct)
  have r: "rlimits (eprint msg st) = rlimits st'"
    by (simp add: eprint_def st'_def)
  have e: "environ (eprint msg st) |` (- stonebox_variables) = environ st' |` (- stonebox_variables)"
    by (simp add: eprint_def st'_def restrict_without_variable variables_member)
  have run: "set_limits_and_exec p st
      = parse_and_exec p (environ st STONEBOX_EXEC_ARGS)
          (set_process_limit p (environ st STONEBOX_PROCESS_LIMIT) (eprint msg st))"
    by (simp add: set_limits_and_exec_def step)
  have run': "set_limits_and_exec p st'
      = parse_and_exec p (environ st STONEBOX_EXEC_ARGS)
          (set_process_limit p (environ st STONEBOX_PROCESS_LIMIT) st')"
    by (simp add: set_limits_and_exec_def step' vars)
  show "fst (set_limits_and_exec p st) = fst (set_limits_and_exec p st')"
    unfolding run run' using r e by (rule later_steps_agree)
  show "rlimits (snd (set_limits_and_exec p st)) = rlimits (snd (set_limits_and_exec p st'))"
    unfolding run run' using r e by (rule later_steps_agree)
  obtain ls where ls: "stderr (snd (set_limits_and_exec p st)) = stderr (eprint msg st) @ ls"
      "stderr (snd (set_limits_and_exec p st')) = stderr st' @ ls"
    unfolding run run' using later_steps_agree(3) [OF r e] by blast
  show "printed st (set_limits_and_exec p st) = msg # printed st (set_limits_and_exec p st')"
    using ls by (simp add: printed_def eprint_def st'_def)
qed

lemma process_limit_failure:
  assumes "environ st STONEBOX_PROCESS_LIMIT = Some s" and "s \<noteq> []"
    and "py_int p s = Inl e
         \<or> (\<exists>n. py_int p s = Inr n
               \<and> setrlimit_raises p RLIMIT_NPROC (n, n)
                    (rlimits (set_memory_limit p (environ st STONEBOX_MEMORY_LIMIT_MB) st)) = Some e)"
  defines "msg \<equiv> [Lit ''Stonebox Unix Limiter: Failed to set process limit: '', Exn e]"
    and "st' \<equiv> st\<lparr>environ := (environ st)(STONEBOX_PROCESS_LIMIT := None)\<rparr>"
    and "m \<equiv> set_memory_limit p (environ st STONEBOX_MEMORY_LIMIT_MB) st"
  shows "set_process_limit p (environ st STONEBOX_PROCESS_LIMIT) m = eprint msg m"
    and "fst (set_limits_and_exec p st) = fst (set_limits_and_exec p st')"
    and "rlimits (snd (set_limits_and_exec p st)) = rlimits (snd (set_limits_and_exec p st'))"
    and "printed m (set_limits_and_exec p st) = msg # printed m (set_limits_and_exec p st')"
proof -
  define m' where "m' = set_memory_limit p (environ st STONEBOX_MEMORY_LIMIT_MB) st'"
  show step: "set_process_limit p (environ st STONEBOX_PROCESS_LIMIT) m = eprint msg m"
    using assms(1-3) by (auto simp: set_process_limit_def setrlimit_def msg_def m_def)
  have vars: "environ st' STONEBOX_MEMORY_LIMIT_MB = environ st STONEBOX_MEMORY_LIMIT_MB"
    "environ st' STONEBOX_EXEC_ARGS = environ st STONEBOX_EXEC_ARGS"
    "environ st' STONEBOX_PROCESS_LIMIT = None"
    by (simp_all add: st'_def variables_distinct)
  have rst: "rlimits st = rlimits st'"
    by (simp add: st'_def)
  have rm: "rlimits m = rlimits m'"
    unfolding m_def m'_def using rst by (rule set_memory_limit_agree)
  obtain l0 where l0: "stderr m = stderr st @ l0" "stderr m' = stderr st' @ l0"
    unfolding m_def m'_def using set_memory_limit_agree(2) [OF rst] by blast
  have sm: "stderr m' = stderr m"
    using l0 by (simp add: st'_def)
  have r: "rlimits (eprint msg m) = rlimits m'"
    using rm by (simp add: eprint_def)
  have e: "environ (eprint msg m) |` (- stonebox_variables) = environ m' |` (- stonebox_variables)"
    by (simp add: eprint_def m_def m'_def set_memory_limit_frame st'_def
          restrict_without_variable variables_member)
  have run: "set_limits_and_exec p st = parse_and_exec p (environ st STONEBOX_EXEC_ARGS) (eprint msg m)"
    using step by (simp add: set_limits_and_exec_def m_def)
  have run': "set_limits_and_exec p st' = parse_and_exec p (environ st STONEBOX_EXEC_ARGS) m'"
    by (simp add: set_limits_and_exec_def vars m'_def set_process_limit_def)
  show "fst (set_limits_and_exec p st) = fst (set_limits_and_exec p st')"
    unfolding run run' using r e by (rule parse_and_exec_agree)
  show "rlimits (snd (set_limits_and_exec p st)) = rlimits (snd (set_limits_and_exec p st'))"
    unfolding run run' using r by (simp add: parse_and_exec_frame)
  obtain ls where ls: "stderr (snd (set_limits_and_exec p st)) = stderr (eprint msg m) @ ls"
      "stderr (snd (set_limits_and_exec p st')) = stderr m' @ ls"
    unfolding run run' using parse_and_exec_agree(2) [OF r e] by blast
  show "printed m (set_limits_and_exec p st) = msg # printed m (set_limits_and_exec p st')"
    using ls sm by (simp add: printed_def eprint_def)
qed

lemma empty_memory_limit_run:
  "observable (set_limits_and_exec p (st\<lparr>environ := (environ st)(STONEBOX_MEMORY_LIMIT_MB \<mapsto> [])\<rparr>))
   = observable (set_limits_and_exec p (st\<lparr>environ := (environ st)(STONEBOX_MEMORY_LIMIT_MB := None)\<rparr>))"
proof -
  define a where "a = st\<lparr>environ := (environ st)(STONEBOX_MEMORY_LIMIT_MB \<mapsto> [])\<rparr>"
  define b where "b = st\<lparr>environ := (environ st)(STONEBOX_MEMORY_LIMIT_MB := None)\<rparr>"
  define v where "v = environ st STONEBOX_EXEC_ARGS"
  define w where "w = environ st STONEBOX_PROCESS_LIMIT"
  have ra: "set_limits_and_exec p a = parse_and_exec p v (set_process_limit p w a)"
    by (simp add: set_limits_and_exec_def a_def v_def w_def variables_distinct set_memory_limit_def)
  have rb: "set_limits_and_exec p b = parse_and_exec p v (set_process_limit p w b)"
    by (simp add: set_limits_and_exec_def b_def v_def w_def variables_distinct set_memory_limit_def)
  have r: "rlimits a = rlimits b"
    by (simp add: a_def b_def)
  have e: "environ a |` (- stonebox_variables) = environ b |` (- stonebox_variables)"
    by (simp add: a_def b_def restrict_without_variable variables_member)
  obtain ls where ls: "stderr (snd (set_limits_and_exec p a)) = stderr a @ ls"
      "stderr (snd (set_limits_and_exec p b)) = stderr b @ ls"
    unfolding ra rb using later_steps_agree(3) [OF r e] by blast
  have "stderr (snd (set_limits_and_exec p a)) = stderr (snd (set_limits_and_exec p b))"
    using ls by (simp add: a_def b_def)
  moreover have "fst (set_limits_and_exec p a) = fst (set_limits_and_exec p b)"
    unfolding ra rb using r e by (rule later_steps_agree)
  moreover have "rlimits (snd (set_limits_and_exec p a)) = rlimits (snd (set_limits_and_exec p b))"
    unfolding ra rb using r e by (rule later_steps_agree)
  moreover have "stdout (snd (set_limits_and_exec p a)) = stdout (snd (set_limits_and_exec p b))"
    unfolding ra rb by (simp add: parse_and_exec_frame set_process_limit_frame a_def b_def)
  ultimately show ?thesis
    unfolding a_def b_def by (simp add: observable_def)
qed

lemma empty_process_limit_run:
  "observable (set_limits_and_exec p (st\<lparr>environ := (environ st)(STONEBOX_PROCESS_LIMIT \<mapsto> [])\<rparr>))
   = observable (set_limits_and_exec p (st\<lparr>environ := (environ st)(STONEBOX_PROCESS_LIMIT := None)\<rparr>))"
proof -
  define a where "a = st\<lparr>environ := (environ st)(STONEBOX_PROCESS_LIMIT \<mapsto> [])\<rparr>"
  define b where "b = st\<lparr>environ := (environ st)(STONEBOX_PROCESS_LIMIT := None)\<rparr>"
  define v where "v = environ st STONEBOX_EXEC_ARGS"
  define w where "w = environ st STONEBOX_MEMORY_LIMIT_MB"
  have ra: "set_limits_and_exec p a = parse_and_exec p v (set_memory_limit p w a)"
    by (simp add: set_limits_and_exec_def a_def v_def w_def variables_distinct set_process_limit_def)
  have rb: "set_limits_and_exec p b = parse_and_exec p v (set_memory_limit p w b)"
    by (simp add: set_limits_and_exec_def b_def v_def w_def variables_distinct set_process_limit_def)
  have r0: "rlimits a = rlimits b"
    by (simp add: a_def b_def)
  have r: "rlimits (set_memory_limit p w a) = rlimits (set_memory_limit p w b)"
    using r0 by (rule set_memory_limit_agree)
  have e: "environ (set_memory_limit p w a) |` (- stonebox_variables)
      = environ (set_memory_limit p w b) |` (- stonebox_variables)"
    by (simp add: set_memory_limit_frame a_def b_def restrict_without_variable variables_member)
  obtain l1 where l1: "stderr (set_memory_limit p w a) = stderr a @ l1"
      "stderr (set_memory_limit p w b) = stderr b @ l1"
    using set_memory_limit_agree(2) [OF r0] by blast
  obtain l2 where l2: "stderr (snd (set_limits_and_exec p a)) = stderr (set_memory_limit p w a) @ l2"
      "stderr (snd (set_limits_and_exec p b)) = stderr (set_memory_limit p w b) @ l2"
    unfolding ra rb using parse_and_exec_agree(2) [OF r e] by blast
  have "stderr (snd (set_limits_and_exec p a)) = stderr (snd (set_limits_and_exec p b))"
    using l1 l2 by (simp add: a_def b_def)
  moreover have "fst (set_limits_and_exec p a) = fst (set_limits_and_exec p b)"
    unfolding ra rb using r e by (rule parse_and_exec_agree)
  moreover have "rlimits (snd (set_limits_and_exec p a)) = rlimits (snd (set_limits_and_exec p b))"
    unfolding ra rb using r by (simp add: parse_and_exec_frame)
  moreover have "stdout (snd (set_limits_and_exec p a)) = stdout (snd (set_limits_and_exec p b))"
    unfolding ra rb by (simp add: parse_and_exec_frame set_memory_limit_frame a_def b_def)
  ultimately show ?thesis
    unfolding a_def b_def by (simp add: observable_def)
qed

subsection \<open>The reference platform at concrete inputs\<close>

lemmas int_defs = ref_int_def is_space_def is_digit_def max_str_digits_def pystr_of_def

lemmas json_defs = ref_json_loads_def valid_json_def skip_ws_def is_ws_def match_number_def
  match_integer_def match_signed_integer_def match_frac_def match_exp_def match_exp_digits_def
  hex_digit_def decode_uXXXX_def backslash_def int_literal_def decimal_def int_defs

lemmas exec_defs = ref_execvp_raises_def ref_execv_def ref_execve_def below_file_def
  arg_raises_def
  encodable_def is_OSError_def path_join_def PATH_def defpath_def pystr_of_def

lemma pystr_of_nonempty [simp]: "pystr_of (c # cs) \<noteq> []"
  by (simp add: pystr_of_def)

lemma ref_int_values:
  "ref_int (pystr_of ''64'') = Inr 64"
  "ref_int (pystr_of ''10'') = Inr 10"
  "ref_int (pystr_of ''not_a_number'') = Inl ValueError"
  "ref_int (pystr_of ''17592186044416'') = Inr 17592186044416"
  "ref_int (pystr_of ''9223372036854775808'') = Inr 9223372036854775808"
  by (simp_all add: int_defs)

lemma ref_json_loads_echo:
  \<open>ref_json_loads (pystr_of ''["/bin/echo", "hello"]'')
     = Inr (PyList [PyStr (pystr_of ''/bin/echo''), PyStr (pystr_of ''hello'')])\<close>
  by (simp add: json_defs)

lemma ref_json_loads_missing:
  \<open>ref_json_loads (pystr_of ''["/definitely/not/a/real/binary"]'')
     = Inr (PyList [PyStr (pystr_of ''/definitely/not/a/real/binary'')])\<close>
  by (simp add: json_defs)

lemma ref_json_loads_passwd:
  \<open>ref_json_loads (pystr_of ''["/etc/passwd"]'') = Inr (PyList [PyStr (pystr_of ''/etc/passwd'')])\<close>
  by (simp add: json_defs)

lemma ref_json_loads_shapes:
  \<open>ref_json_loads (pystr_of ''[]'') = Inr (PyList [])\<close>
  \<open>ref_json_loads (pystr_of ''[1]'') = Inr (PyList [PyInt 1])\<close>
  \<open>ref_json_loads (pystr_of ''42'') = Inr (PyInt 42)\<close>
  by (simp_all add: json_defs)

lemma ref_json_loads_invalid:
  "ref_json_loads (pystr_of ''not valid json'') = Inl JSONDecodeError"
  by (simp add: json_defs)

lemma ref_json_loads_constants:
  "ref_json_loads (pystr_of ''NaN'') = Inr (PyFloat (pystr_of ''NaN''))"
  "ref_json_loads (pystr_of ''-Infinity'') = Inr (PyFloat (pystr_of ''-Infinity''))"
  by (simp_all add: json_defs)

lemma valid_json_values:
  \<open>valid_json (pystr_of ''["/bin/echo", "hello"]'')\<close>
  \<open>valid_json (pystr_of ''[]'')\<close>
  \<open>valid_json (pystr_of ''42'')\<close>
  \<open>\<not> valid_json (pystr_of ''not valid json'')\<close>
  \<open>\<not> valid_json (pystr_of ''NaN'')\<close>
  \<open>\<not> valid_json (pystr_of ''-Infinity'')\<close>
  by (simp_all add: json_defs)

lemma ref_execvp_echo:
  "ref_execvp_raises (PyStr (pystr_of ''/bin/echo''))
     (PyList [PyStr (pystr_of ''/bin/echo''), PyStr (pystr_of ''hello'')]) env table = None"
  by (simp add: exec_defs)

lemma ref_execvp_missing:
  "ref_execvp_raises (PyStr (pystr_of ''/definitely/not/a/real/binary''))
     (PyList [PyStr (pystr_of ''/definitely/not/a/real/binary'')]) env table = Some FileNotFoundError"
  by (simp add: exec_defs)

lemma ref_execvp_passwd:
  "ref_execvp_raises (PyStr (pystr_of ''/etc/passwd''))
     (PyList [PyStr (pystr_of ''/etc/passwd'')]) env table = Some PermissionError"
  by (simp add: exec_defs)

lemma ref_execvp_not_str:
  "ref_execvp_raises (PyInt 1) args env table = Some TypeError"
  by (simp add: ref_execvp_raises_def)

lemma ref_setrlimit_values:
  "ref_setrlimit_raises RLIMIT_AS (67108864, 67108864) (\<lambda>r. (- 1, - 1)) = None"
  "table RLIMIT_NPROC = (- 1, - 1) \<Longrightarrow> ref_setrlimit_raises RLIMIT_NPROC (10, 10) table = None"
  "ref_setrlimit_raises RLIMIT_AS (18446744073709551616, 18446744073709551616) table = Some OverflowError"
  "ref_setrlimit_raises RLIMIT_NPROC (9223372036854775808, 9223372036854775808) table = Some OverflowError"
  by (simp_all add: ref_setrlimit_raises_def fits_long_def rlim_t_def)

lemmas run_defs = set_limits_and_exec_def set_memory_limit_def set_process_limit_def
  parse_and_exec_def scrub_and_exec_unfold setrlimit_def eprint_def started_def reference_def
  variables_distinct printed_def limits_applied_def Let_def
  ref_int_values ref_json_loads_echo ref_json_loads_missing ref_json_loads_passwd
  ref_json_loads_shapes ref_json_loads_invalid ref_json_loads_constants ref_execvp_echo ref_execvp_missing
  ref_execvp_passwd ref_execvp_not_str ref_setrlimit_values

section \<open>The claims\<close>

subsection \<open>C1: no argument vector\<close>

text \<open>
  Claim C1. When \<^verbatim>\<open>STONEBOX_EXEC_ARGS\<close> is absent or is the empty string, the run ends with
  \<^verbatim>\<open>sys.exit(120)\<close>; the one line printed after the limit steps is the diagnostic that
  names the variable, on the error stream; no program is executed: the environment is still
  the one the process started with, and the whole result is the same whatever
  \<^verbatim>\<open>os.execvp\<close> would have answered.
\<close>

theorem exec_args_unset_exits_120:
  assumes "environ st STONEBOX_EXEC_ARGS = None \<or> environ st STONEBOX_EXEC_ARGS = Some []"
  shows "fst (set_limits_and_exec p st) = Exited 120
    \<and> printed (limits_applied p st) (set_limits_and_exec p st)
        = [[Lit ''Stonebox Unix Limiter: STONEBOX_EXEC_ARGS not set.'']]
    \<and> stdout (snd (set_limits_and_exec p st)) = stdout st
    \<and> environ (snd (set_limits_and_exec p st)) = environ st
    \<and> set_limits_and_exec (p\<lparr>execvp_raises := x\<rparr>) st = set_limits_and_exec p st"
proof -
  have tr: "\<not> truthy (environ st STONEBOX_EXEC_ARGS)"
    using assms by auto
  have lim: "limits_applied (p\<lparr>execvp_raises := x\<rparr>) st = limits_applied p st"
    by (simp add: limits_applied_def limit_steps_ignore_execvp)
  show ?thesis
    using tr
    by (simp add: set_limits_and_exec_alt lim parse_and_exec_def printed_def eprint_def limits_applied_frame)
qed

text \<open>
  C1 at concrete inputs: a process with a memory limit and no argument vector, and a process
  whose argument vector is the empty string.
\<close>

theorem exec_args_unset_exits_120_witness:
  "fst (set_limits_and_exec reference (started [(STONEBOX_MEMORY_LIMIT_MB, pystr_of ''64'')])) = Exited 120
   \<and> stderr (snd (set_limits_and_exec reference (started [(STONEBOX_MEMORY_LIMIT_MB, pystr_of ''64'')])))
       = [[Lit ''Stonebox Unix Limiter: STONEBOX_EXEC_ARGS not set.'']]
   \<and> fst (set_limits_and_exec reference
         (started [(STONEBOX_EXEC_ARGS, []), (pystr_of ''HOME'', pystr_of ''/root'')])) = Exited 120"
proof -
  have a: "environ (started [(STONEBOX_MEMORY_LIMIT_MB, pystr_of ''64'')]) STONEBOX_EXEC_ARGS = None
      \<or> environ (started [(STONEBOX_MEMORY_LIMIT_MB, pystr_of ''64'')]) STONEBOX_EXEC_ARGS = Some []"
    by (simp add: started_def variables_distinct)
  have b: "environ (started [(STONEBOX_EXEC_ARGS, []), (pystr_of ''HOME'', pystr_of ''/root'')])
        STONEBOX_EXEC_ARGS = None
      \<or> environ (started [(STONEBOX_EXEC_ARGS, []), (pystr_of ''HOME'', pystr_of ''/root'')])
        STONEBOX_EXEC_ARGS = Some []"
    by (simp add: started_def)
  have c: "stderr (limits_applied reference (started [(STONEBOX_MEMORY_LIMIT_MB, pystr_of ''64'')])) = []"
    by (simp add: run_defs)
  show ?thesis
    using exec_args_unset_exits_120 [OF a, of reference] exec_args_unset_exits_120 [OF b, of reference] c
    by (simp add: printed_def)
qed

subsection \<open>C2: an argument vector that does not parse\<close>

text \<open>
  Claim C2 says that every non-empty value of \<^verbatim>\<open>STONEBOX_EXEC_ARGS\<close> that is not valid JSON
  ends the run with status 121. The function leaves the judgement to \<^verbatim>\<open>json.loads\<close>,
  which accepts some text outside the JSON grammar. On the reference platform \<^verbatim>\<open>NaN\<close> is
  not valid JSON, it is not empty, \<^verbatim>\<open>json.loads\<close> returns a float for it, and
  \<^verbatim>\<open>command_parts[0]\<close> then raises \<^verbatim>\<open>TypeError\<close> outside every handler: the run does not
  end with status 121.
\<close>

theorem not_valid_json_not_121_counterexample:
  "\<not> valid_json (pystr_of ''NaN'')
   \<and> pystr_of ''NaN'' \<noteq> []
   \<and> json_loads reference (pystr_of ''NaN'') = Inr (PyFloat (pystr_of ''NaN''))
   \<and> fst (set_limits_and_exec reference (started [(STONEBOX_EXEC_ARGS, pystr_of ''NaN'')]))
       = Uncaught TypeError
   \<and> fst (set_limits_and_exec reference (started [(STONEBOX_EXEC_ARGS, pystr_of ''NaN'')]))
       \<noteq> Exited 121"
  by (simp add: run_defs valid_json_values)

text \<open>
  Claim C2, amended. For a non-empty value of \<^verbatim>\<open>STONEBOX_EXEC_ARGS\<close> the run ends with
  status 121 exactly when \<^verbatim>\<open>json.loads\<close> raises on it, and then the one line printed after
  the limit steps is the parse failure with the exception raised. A value that
  \<^verbatim>\<open>json.loads\<close> accepts although it is not valid JSON (\<^verbatim>\<open>NaN\<close>, \<^verbatim>\<open>Infinity\<close>,
  \<^verbatim>\<open>-Infinity\<close>) is not a parse failure and is not given status 121.
\<close>

theorem exit_121_iff_json_loads_raises:
  assumes "environ st STONEBOX_EXEC_ARGS = Some s" and "s \<noteq> []"
  shows "(fst (set_limits_and_exec p st) = Exited 121) = (\<exists>e. json_loads p s = Inl e)
    \<and> (json_loads p s = Inl e \<longrightarrow>
         fst (set_limits_and_exec p st) = Exited 121
         \<and> printed (limits_applied p st) (set_limits_and_exec p st)
             = [[Lit ''Stonebox Unix Limiter: Failed to parse STONEBOX_EXEC_ARGS: '', Exn e]])"
proof (cases "json_loads p s")
  case (Inl x)
  then show ?thesis
    using assms
    by (simp add: set_limits_and_exec_alt parse_and_exec_def printed_def eprint_def)
next
  case (Inr v)
  have "fst (scrub_and_exec p v (limits_applied p st)) \<noteq> Exited 121"
    by (simp add: scrub_and_exec_unfold split: sum.splits option.splits)
  then show ?thesis
    using assms Inr
    by (simp add: set_limits_and_exec_alt parse_and_exec_def)
qed

text \<open>
  The amended C2 on the reference platform: the value \<^verbatim>\<open>not valid json\<close>, on which the
  decoder raises, and the value \<^verbatim>\<open>NaN\<close>, on which it does not.
\<close>

theorem exit_121_iff_json_loads_raises_witness:
  "json_loads reference (pystr_of ''not valid json'') = Inl JSONDecodeError
   \<and> fst (set_limits_and_exec reference
          (started [(STONEBOX_EXEC_ARGS, pystr_of ''not valid json'')])) = Exited 121
   \<and> stderr (snd (set_limits_and_exec reference
          (started [(STONEBOX_EXEC_ARGS, pystr_of ''not valid json'')])))
       = [[Lit ''Stonebox Unix Limiter: Failed to parse STONEBOX_EXEC_ARGS: '', Exn JSONDecodeError]]
   \<and> json_loads reference (pystr_of ''NaN'') = Inr (PyFloat (pystr_of ''NaN''))
   \<and> fst (set_limits_and_exec reference (started [(STONEBOX_EXEC_ARGS, pystr_of ''NaN'')]))
       \<noteq> Exited 121"
proof -
  have a: "environ (started [(STONEBOX_EXEC_ARGS, pystr_of ''not valid json'')]) STONEBOX_EXEC_ARGS
      = Some (pystr_of ''not valid json'')"
    by (simp add: started_def)
  have b: "pystr_of ''not valid json'' \<noteq> []"
    by simp
  have c: "json_loads reference (pystr_of ''not valid json'') = Inl JSONDecodeError"
    by (simp add: reference_def ref_json_loads_invalid)
  have d: "stderr (limits_applied reference
      (started [(STONEBOX_EXEC_ARGS, pystr_of ''not valid json'')])) = []"
    by (simp add: run_defs)
  have a': "environ (started [(STONEBOX_EXEC_ARGS, pystr_of ''NaN'')]) STONEBOX_EXEC_ARGS
      = Some (pystr_of ''NaN'')"
    by (simp add: started_def)
  have b': "pystr_of ''NaN'' \<noteq> []"
    by simp
  have c': "json_loads reference (pystr_of ''NaN'') = Inr (PyFloat (pystr_of ''NaN''))"
    by (simp add: reference_def ref_json_loads_constants)
  show ?thesis
    using exit_121_iff_json_loads_raises [OF a b, of reference JSONDecodeError]
      exit_121_iff_json_loads_raises [OF a' b', of reference JSONDecodeError] c d c'
    by (simp add: printed_def)
qed

subsection \<open>C3: an argument vector of the wrong shape\<close>

text \<open>
  Claim C3 says that a value which parses as JSON but is not a non-empty array of strings
  ends the run with status 121. The function does not look at the shape of what it parsed.
  On the reference platform the empty array \<^verbatim>\<open>[]\<close> and the number \<^verbatim>\<open>42\<close> parse, and
  \<^verbatim>\<open>command_parts[0]\<close> then raises outside every handler; the array \<^verbatim>\<open>[1]\<close> parses, and
  its element is handed to \<^verbatim>\<open>os.execvp\<close>, whose \<^verbatim>\<open>TypeError\<close> ends the run with 126.
  None of the three runs ends with 121.
\<close>

theorem wrong_shape_not_121_counterexample:
  \<open>json_loads reference (pystr_of ''[]'') = Inr (PyList [])
   \<and> fst (set_limits_and_exec reference (started [(STONEBOX_EXEC_ARGS, pystr_of ''[]'')]))
       = Uncaught IndexError
   \<and> json_loads reference (pystr_of ''42'') = Inr (PyInt 42)
   \<and> fst (set_limits_and_exec reference (started [(STONEBOX_EXEC_ARGS, pystr_of ''42'')]))
       = Uncaught TypeError
   \<and> json_loads reference (pystr_of ''[1]'') = Inr (PyList [PyInt 1])
   \<and> fst (set_limits_and_exec reference (started [(STONEBOX_EXEC_ARGS, pystr_of ''[1]'')]))
       = Exited 126\<close>
  by (simp add: run_defs)

text \<open>
  Claim C3, amended. Status 121 is given to a parse failure only: for every non-empty value
  of \<^verbatim>\<open>STONEBOX_EXEC_ARGS\<close> that \<^verbatim>\<open>json.loads\<close> accepts, whatever its shape, the run does
  not end with status 121. The parsed value is not validated: when it has an element 0 (a
  non-empty array, also one with elements that are not strings, or a non-empty string), that
  element is the program, the whole value is the argument vector, and the run ends as
  \<^verbatim>\<open>os.execvp\<close> decides: the image replaced, status 127, or status 126.
\<close>

theorem parsed_json_is_not_shape_checked:
  assumes "environ st STONEBOX_EXEC_ARGS = Some s" and "s \<noteq> []" and "json_loads p s = Inr v"
  shows "fst (set_limits_and_exec p st) \<noteq> Exited 121
    \<and> (item0 v = Inr c \<longrightarrow>
         fst (set_limits_and_exec p st) =
           (case execvp_raises p c v (environ st |` (- stonebox_variables))
                   (rlimits (limits_applied p st)) of
              None \<Rightarrow> Replaced c v
            | Some e \<Rightarrow> if e = FileNotFoundError then Exited 127 else Exited 126))"
  using assms
  by (auto simp: set_limits_and_exec_alt parse_and_exec_def scrub_and_exec_unfold
        limits_applied_frame split: sum.splits option.splits)

text \<open>
  The amended C3 on the reference platform, for the value \<^verbatim>\<open>[1]\<close>.
\<close>

theorem parsed_json_is_not_shape_checked_witness:
  \<open>json_loads reference (pystr_of ''[1]'') = Inr (PyList [PyInt 1])
   \<and> item0 (PyList [PyInt 1]) = Inr (PyInt 1)
   \<and> fst (set_limits_and_exec reference (started [(STONEBOX_EXEC_ARGS, pystr_of ''[1]'')]))
       \<noteq> Exited 121
   \<and> fst (set_limits_and_exec reference (started [(STONEBOX_EXEC_ARGS, pystr_of ''[1]'')]))
       = Exited 126\<close>
proof -
  have a: "environ (started [(STONEBOX_EXEC_ARGS, pystr_of ''[1]'')]) STONEBOX_EXEC_ARGS
      = Some (pystr_of ''[1]'')"
    by (simp add: started_def)
  have b: "pystr_of ''[1]'' \<noteq> []"
    by simp
  have c: "json_loads reference (pystr_of ''[1]'') = Inr (PyList [PyInt 1])"
    by (simp add: reference_def ref_json_loads_shapes)
  have d: "execvp_raises reference (PyInt 1) args env table = Some TypeError" for args env table
    by (simp add: reference_def ref_execvp_not_str)
  show ?thesis
    using parsed_json_is_not_shape_checked [OF a b c, of "PyInt 1"] c d
    by simp
qed

subsection \<open>C4: the two failures of the replacement\<close>



subsection \<open>C5: the memory limit\<close>

text \<open>
  Claim C5 says that every positive integer N given as \<^verbatim>\<open>STONEBOX_MEMORY_LIMIT_MB\<close> becomes
  the address-space limit N * 1024 * 1024. The call that sets it can be refused, and the
  function then prints a line and goes on. On the reference platform, for
  N = 17592186044416 the product is \<open>2 ^ 64\<close>, \<^verbatim>\<open>resource.setrlimit\<close> raises
  \<^verbatim>\<open>OverflowError\<close>, and the program is executed with the limit it had at the start.
\<close>

theorem memory_limit_refused_counterexample:
  \<open>py_int reference (pystr_of ''17592186044416'') = Inr 17592186044416
   \<and> fst (set_limits_and_exec reference
        (started [(STONEBOX_MEMORY_LIMIT_MB, pystr_of ''17592186044416''),
                  (STONEBOX_EXEC_ARGS, pystr_of ''["/bin/echo", "hello"]'')]))
       = Replaced (PyStr (pystr_of ''/bin/echo''))
           (PyList [PyStr (pystr_of ''/bin/echo''), PyStr (pystr_of ''hello'')])
   \<and> rlimits (snd (set_limits_and_exec reference
        (started [(STONEBOX_MEMORY_LIMIT_MB, pystr_of ''17592186044416''),
                  (STONEBOX_EXEC_ARGS, pystr_of ''["/bin/echo", "hello"]'')]))) RLIMIT_AS
       = (- 1, - 1)
   \<and> rlimits (snd (set_limits_and_exec reference
        (started [(STONEBOX_MEMORY_LIMIT_MB, pystr_of ''17592186044416''),
                  (STONEBOX_EXEC_ARGS, pystr_of ''["/bin/echo", "hello"]'')]))) RLIMIT_AS
       \<noteq> (17592186044416 * 1024 * 1024, 17592186044416 * 1024 * 1024)\<close>
  by (simp add: run_defs)

text \<open>
  Claim C5, amended. For every positive integer N given as \<^verbatim>\<open>STONEBOX_MEMORY_LIMIT_MB\<close> (a
  string \<^verbatim>\<open>int\<close> reads as N) for which \<^verbatim>\<open>resource.setrlimit\<close> accepts the pair, the
  address-space limit is soft = hard = N * 1024 * 1024 once the limit steps are done, and it
  is still so in the process as the run leaves it, which is the process the new image
  inherits. When the call is refused with an exception, the limit is left as it was, the
  diagnostic with the exception is the first line printed, and the run goes on as the run
  of the same process without the variable.
\<close>

theorem memory_limit_set_when_accepted:
  assumes "environ st STONEBOX_MEMORY_LIMIT_MB = Some s" and "s \<noteq> []"
    and "py_int p s = Inr N" and "0 < N"
  shows "(setrlimit_raises p RLIMIT_AS (N * 1024 * 1024, N * 1024 * 1024) (rlimits st) = None
          \<longrightarrow>
            rlimits (limits_applied p st) RLIMIT_AS = (N * 1024 * 1024, N * 1024 * 1024)
            \<and> rlimits (snd (set_limits_and_exec p st)) RLIMIT_AS
                = (N * 1024 * 1024, N * 1024 * 1024))
    \<and> (setrlimit_raises p RLIMIT_AS (N * 1024 * 1024, N * 1024 * 1024) (rlimits st) = Some e
          \<longrightarrow>
            rlimits (limits_applied p st) RLIMIT_AS = rlimits st RLIMIT_AS
            \<and> rlimits (snd (set_limits_and_exec p st)) RLIMIT_AS = rlimits st RLIMIT_AS
            \<and> printed st (set_limits_and_exec p st)
                = [Lit ''Stonebox Unix Limiter: Failed to set memory limit: '', Exn e]
                  # printed st (set_limits_and_exec p
                      (st\<lparr>environ := (environ st)(STONEBOX_MEMORY_LIMIT_MB := None)\<rparr>))
            \<and> fst (set_limits_and_exec p st)
                = fst (set_limits_and_exec p
                    (st\<lparr>environ := (environ st)(STONEBOX_MEMORY_LIMIT_MB := None)\<rparr>)))"
proof (intro conjI impI)
  assume acc: "setrlimit_raises p RLIMIT_AS (N * 1024 * 1024, N * 1024 * 1024) (rlimits st) = None"
  show a: "rlimits (limits_applied p st) RLIMIT_AS = (N * 1024 * 1024, N * 1024 * 1024)"
    using assms acc
    by (simp add: limits_applied_def set_process_limit_frame set_memory_limit_accepted)
  show "rlimits (snd (set_limits_and_exec p st)) RLIMIT_AS = (N * 1024 * 1024, N * 1024 * 1024)"
    using a by (simp add: set_limits_and_exec_alt parse_and_exec_frame)
next
  assume ref: "setrlimit_raises p RLIMIT_AS (N * 1024 * 1024, N * 1024 * 1024) (rlimits st) = Some e"
  have h: "py_int p s = Inl e
      \<or> (\<exists>n. py_int p s = Inr n
            \<and> setrlimit_raises p RLIMIT_AS (n * 1024 * 1024, n * 1024 * 1024) (rlimits st) = Some e)"
    using assms(3) ref by simp
  note f = memory_limit_failure [OF assms(1) assms(2) h]
  show b: "rlimits (limits_applied p st) RLIMIT_AS = rlimits st RLIMIT_AS"
    using f(1) by (simp add: limits_applied_def set_process_limit_frame eprint_def)
  show "rlimits (snd (set_limits_and_exec p st)) RLIMIT_AS = rlimits st RLIMIT_AS"
    using b by (simp add: set_limits_and_exec_alt parse_and_exec_frame)
  show "printed st (set_limits_and_exec p st)
      = [Lit ''Stonebox Unix Limiter: Failed to set memory limit: '', Exn e]
        # printed st (set_limits_and_exec p
            (st\<lparr>environ := (environ st)(STONEBOX_MEMORY_LIMIT_MB := None)\<rparr>))"
    by (rule f)
  show "fst (set_limits_and_exec p st)
      = fst (set_limits_and_exec p
          (st\<lparr>environ := (environ st)(STONEBOX_MEMORY_LIMIT_MB := None)\<rparr>))"
    by (rule f)
qed

text \<open>
  The amended C5 on the reference platform: N = 64, which is accepted, and
  N = 17592186044416, which is refused.
\<close>

theorem memory_limit_set_when_accepted_witness:
  \<open>rlimits (snd (set_limits_and_exec reference
        (started [(STONEBOX_MEMORY_LIMIT_MB, pystr_of ''64''),
                  (STONEBOX_EXEC_ARGS, pystr_of ''["/bin/echo", "hello"]'')]))) RLIMIT_AS
       = (67108864, 67108864)
   \<and> fst (set_limits_and_exec reference
        (started [(STONEBOX_MEMORY_LIMIT_MB, pystr_of ''64''),
                  (STONEBOX_EXEC_ARGS, pystr_of ''["/bin/echo", "hello"]'')]))
       = Replaced (PyStr (pystr_of ''/bin/echo''))
           (PyList [PyStr (pystr_of ''/bin/echo''), PyStr (pystr_of ''hello'')])
   \<and> rlimits (snd (set_limits_and_exec reference
        (started [(STONEBOX_MEMORY_LIMIT_MB, pystr_of ''17592186044416''),
                  (STONEBOX_EXEC_ARGS, pystr_of ''["/bin/echo", "hello"]'')]))) RLIMIT_AS
       = (- 1, - 1)\<close>
proof -
  define st where \<open>st = started [(STONEBOX_MEMORY_LIMIT_MB, pystr_of ''64''),
                  (STONEBOX_EXEC_ARGS, pystr_of ''["/bin/echo", "hello"]'')]\<close>
  define st' where \<open>st' = started [(STONEBOX_MEMORY_LIMIT_MB, pystr_of ''17592186044416''),
                  (STONEBOX_EXEC_ARGS, pystr_of ''["/bin/echo", "hello"]'')]\<close>
  have a': "environ st' STONEBOX_MEMORY_LIMIT_MB = Some (pystr_of ''17592186044416'')"
    by (simp add: st'_def started_def)
  have b': "pystr_of ''17592186044416'' \<noteq> []"
    by simp
  have c': "py_int reference (pystr_of ''17592186044416'') = Inr 17592186044416"
    by (simp add: reference_def ref_int_values)
  have d': "(0::int) < 17592186044416"
    by simp
  have e': "setrlimit_raises reference RLIMIT_AS
      (17592186044416 * 1024 * 1024, 17592186044416 * 1024 * 1024) (rlimits st')
      = Some OverflowError"
    by (simp add: reference_def ref_setrlimit_values)
  have g': "rlimits st' RLIMIT_AS = (- 1, - 1)"
    by (simp add: st'_def started_def)
  have x: "rlimits (snd (set_limits_and_exec reference st')) RLIMIT_AS = rlimits st' RLIMIT_AS"
    using memory_limit_set_when_accepted [OF a' b' c' d', of OverflowError] e' by blast
  have a: "environ st STONEBOX_MEMORY_LIMIT_MB = Some (pystr_of ''64'')"
    by (simp add: st_def started_def)
  have b: "pystr_of ''64'' \<noteq> []"
    by simp
  have c: "py_int reference (pystr_of ''64'') = Inr 64"
    by (simp add: reference_def ref_int_values)
  have d: "(0::int) < 64"
    by simp
  have e: "setrlimit_raises reference RLIMIT_AS (64 * 1024 * 1024, 64 * 1024 * 1024) (rlimits st) = None"
    by (simp add: reference_def st_def started_def ref_setrlimit_values)
  have f: \<open>fst (set_limits_and_exec reference st)
       = Replaced (PyStr (pystr_of ''/bin/echo''))
           (PyList [PyStr (pystr_of ''/bin/echo''), PyStr (pystr_of ''hello'')])\<close>
    by (simp add: st_def run_defs)
  have y: "rlimits (snd (set_limits_and_exec reference st)) RLIMIT_AS
      = (64 * 1024 * 1024, 64 * 1024 * 1024)"
    using memory_limit_set_when_accepted [OF a b c d, of OverflowError] e by blast
  show ?thesis
    using y f x g'
    unfolding st_def [symmetric] st'_def [symmetric]
    by simp
qed

subsection \<open>C6: a limit that cannot be set\<close>

text \<open>
  Claim C6. A limit that cannot be set is not fatal. When \<^verbatim>\<open>STONEBOX_MEMORY_LIMIT_MB\<close> is
  non-empty and either \<^verbatim>\<open>int\<close> or \<^verbatim>\<open>resource.setrlimit\<close> raises \<open>e\<close>, the memory step
  prints the tagged line with \<open>e\<close> and changes nothing else, and the run goes on exactly as
  the run of the same process without the variable: the same outcome, the same limit table,
  and the same lines printed after that one. The same holds for
  \<^verbatim>\<open>STONEBOX_PROCESS_LIMIT\<close>, whose line comes after those of the memory step.
\<close>

theorem limit_failure_is_not_fatal:
  "(environ st STONEBOX_MEMORY_LIMIT_MB = Some s \<and> s \<noteq> []
      \<and> (py_int p s = Inl e
          \<or> (\<exists>n. py_int p s = Inr n
                \<and> setrlimit_raises p RLIMIT_AS (n * 1024 * 1024, n * 1024 * 1024) (rlimits st) = Some e))
     \<longrightarrow>
       set_memory_limit p (environ st STONEBOX_MEMORY_LIMIT_MB) st
         = eprint [Lit ''Stonebox Unix Limiter: Failed to set memory limit: '', Exn e] st
       \<and> fst (set_limits_and_exec p st)
           = fst (set_limits_and_exec p (st\<lparr>environ := (environ st)(STONEBOX_MEMORY_LIMIT_MB := None)\<rparr>))
       \<and> rlimits (snd (set_limits_and_exec p st))
           = rlimits (snd (set_limits_and_exec p
               (st\<lparr>environ := (environ st)(STONEBOX_MEMORY_LIMIT_MB := None)\<rparr>)))
       \<and> printed st (set_limits_and_exec p st)
           = [Lit ''Stonebox Unix Limiter: Failed to set memory limit: '', Exn e]
             # printed st (set_limits_and_exec p
                 (st\<lparr>environ := (environ st)(STONEBOX_MEMORY_LIMIT_MB := None)\<rparr>)))
   \<and> (environ st STONEBOX_PROCESS_LIMIT = Some s' \<and> s' \<noteq> []
      \<and> (py_int p s' = Inl e'
          \<or> (\<exists>n. py_int p s' = Inr n
                \<and> setrlimit_raises p RLIMIT_NPROC (n, n)
                     (rlimits (set_memory_limit p (environ st STONEBOX_MEMORY_LIMIT_MB) st)) = Some e'))
     \<longrightarrow>
       set_process_limit p (environ st STONEBOX_PROCESS_LIMIT)
           (set_memory_limit p (environ st STONEBOX_MEMORY_LIMIT_MB) st)
         = eprint [Lit ''Stonebox Unix Limiter: Failed to set process limit: '', Exn e']
             (set_memory_limit p (environ st STONEBOX_MEMORY_LIMIT_MB) st)
       \<and> fst (set_limits_and_exec p st)
           = fst (set_limits_and_exec p (st\<lparr>environ := (environ st)(STONEBOX_PROCESS_LIMIT := None)\<rparr>))
       \<and> rlimits (snd (set_limits_and_exec p st))
           = rlimits (snd (set_limits_and_exec p
               (st\<lparr>environ := (environ st)(STONEBOX_PROCESS_LIMIT := None)\<rparr>)))
       \<and> printed (set_memory_limit p (environ st STONEBOX_MEMORY_LIMIT_MB) st) (set_limits_and_exec p st)
           = [Lit ''Stonebox Unix Limiter: Failed to set process limit: '', Exn e']
             # printed (set_memory_limit p (environ st STONEBOX_MEMORY_LIMIT_MB) st)
                 (set_limits_and_exec p
                   (st\<lparr>environ := (environ st)(STONEBOX_PROCESS_LIMIT := None)\<rparr>)))"
proof (intro conjI impI)
  assume h: "environ st STONEBOX_MEMORY_LIMIT_MB = Some s \<and> s \<noteq> []
      \<and> (py_int p s = Inl e
          \<or> (\<exists>n. py_int p s = Inr n
                \<and> setrlimit_raises p RLIMIT_AS (n * 1024 * 1024, n * 1024 * 1024) (rlimits st) = Some e))"
  then have h1: "environ st STONEBOX_MEMORY_LIMIT_MB = Some s" and h2: "s \<noteq> []"
    and h3: "py_int p s = Inl e
          \<or> (\<exists>n. py_int p s = Inr n
                \<and> setrlimit_raises p RLIMIT_AS (n * 1024 * 1024, n * 1024 * 1024) (rlimits st) = Some e)"
    by blast+
  note f = memory_limit_failure [OF h1 h2 h3]
  show "set_memory_limit p (environ st STONEBOX_MEMORY_LIMIT_MB) st
         = eprint [Lit ''Stonebox Unix Limiter: Failed to set memory limit: '', Exn e] st"
    by (rule f)
  show "fst (set_limits_and_exec p st)
           = fst (set_limits_and_exec p (st\<lparr>environ := (environ st)(STONEBOX_MEMORY_LIMIT_MB := None)\<rparr>))"
    by (rule f)
  show "rlimits (snd (set_limits_and_exec p st))
           = rlimits (snd (set_limits_and_exec p
               (st\<lparr>environ := (environ st)(STONEBOX_MEMORY_LIMIT_MB := None)\<rparr>)))"
    by (rule f)
  show "printed st (set_limits_and_exec p st)
           = [Lit ''Stonebox Unix Limiter: Failed to set memory limit: '', Exn e]
             # printed st (set_limits_and_exec p
                 (st\<lparr>environ := (environ st)(STONEBOX_MEMORY_LIMIT_MB := None)\<rparr>))"
    by (rule f)
next
  assume h: "environ st STONEBOX_PROCESS_LIMIT = Some s' \<and> s' \<noteq> []
      \<and> (py_int p s' = Inl e'
          \<or> (\<exists>n. py_int p s' = Inr n
                \<and> setrlimit_raises p RLIMIT_NPROC (n, n)
                     (rlimits (set_memory_limit p (environ st STONEBOX_MEMORY_LIMIT_MB) st)) = Some e'))"
  then have h1: "environ st STONEBOX_PROCESS_LIMIT = Some s'" and h2: "s' \<noteq> []"
    and h3: "py_int p s' = Inl e'
          \<or> (\<exists>n. py_int p s' = Inr n
                \<and> setrlimit_raises p RLIMIT_NPROC (n, n)
                     (rlimits (set_memory_limit p (environ st STONEBOX_MEMORY_LIMIT_MB) st)) = Some e')"
    by blast+
  note f = process_limit_failure [OF h1 h2 h3]
  show "set_process_limit p (environ st STONEBOX_PROCESS_LIMIT)
           (set_memory_limit p (environ st STONEBOX_MEMORY_LIMIT_MB) st)
         = eprint [Lit ''Stonebox Unix Limiter: Failed to set process limit: '', Exn e']
             (set_memory_limit p (environ st STONEBOX_MEMORY_LIMIT_MB) st)"
    by (rule f)
  show "fst (set_limits_and_exec p st)
           = fst (set_limits_and_exec p (st\<lparr>environ := (environ st)(STONEBOX_PROCESS_LIMIT := None)\<rparr>))"
    by (rule f)
  show "rlimits (snd (set_limits_and_exec p st))
           = rlimits (snd (set_limits_and_exec p
               (st\<lparr>environ := (environ st)(STONEBOX_PROCESS_LIMIT := None)\<rparr>)))"
    by (rule f)
  show "printed (set_memory_limit p (environ st STONEBOX_MEMORY_LIMIT_MB) st) (set_limits_and_exec p st)
           = [Lit ''Stonebox Unix Limiter: Failed to set process limit: '', Exn e']
             # printed (set_memory_limit p (environ st STONEBOX_MEMORY_LIMIT_MB) st)
                 (set_limits_and_exec p
                   (st\<lparr>environ := (environ st)(STONEBOX_PROCESS_LIMIT := None)\<rparr>))"
    by (rule f)
qed

text \<open>
  C6 on the reference platform: a memory limit that is not a number and a process limit that
  does not fit, with a valid argument vector. Both lines are printed and the program is
  executed.
\<close>

theorem limit_failure_is_not_fatal_witness:
  \<open>py_int reference (pystr_of ''not_a_number'') = Inl ValueError
   \<and> fst (set_limits_and_exec reference
        (started [(STONEBOX_MEMORY_LIMIT_MB, pystr_of ''not_a_number''),
                  (STONEBOX_PROCESS_LIMIT, pystr_of ''9223372036854775808''),
                  (STONEBOX_EXEC_ARGS, pystr_of ''["/bin/echo", "hello"]'')]))
       = Replaced (PyStr (pystr_of ''/bin/echo''))
           (PyList [PyStr (pystr_of ''/bin/echo''), PyStr (pystr_of ''hello'')])
   \<and> fst (set_limits_and_exec reference
        (started [(STONEBOX_MEMORY_LIMIT_MB, pystr_of ''not_a_number''),
                  (STONEBOX_PROCESS_LIMIT, pystr_of ''9223372036854775808''),
                  (STONEBOX_EXEC_ARGS, pystr_of ''["/bin/echo", "hello"]'')]))
       = fst (set_limits_and_exec reference
        (started [(STONEBOX_PROCESS_LIMIT, pystr_of ''9223372036854775808''),
                  (STONEBOX_EXEC_ARGS, pystr_of ''["/bin/echo", "hello"]'')]))
   \<and> stderr (snd (set_limits_and_exec reference
        (started [(STONEBOX_MEMORY_LIMIT_MB, pystr_of ''not_a_number''),
                  (STONEBOX_PROCESS_LIMIT, pystr_of ''9223372036854775808''),
                  (STONEBOX_EXEC_ARGS, pystr_of ''["/bin/echo", "hello"]'')])))
       = [[Lit ''Stonebox Unix Limiter: Failed to set memory limit: '', Exn ValueError],
          [Lit ''Stonebox Unix Limiter: Failed to set process limit: '', Exn OverflowError]]\<close>
proof -
  define st where \<open>st = started [(STONEBOX_MEMORY_LIMIT_MB, pystr_of ''not_a_number''),
                  (STONEBOX_PROCESS_LIMIT, pystr_of ''9223372036854775808''),
                  (STONEBOX_EXEC_ARGS, pystr_of ''["/bin/echo", "hello"]'')]\<close>
  define st' where \<open>st' = started [(STONEBOX_PROCESS_LIMIT, pystr_of ''9223372036854775808''),
                  (STONEBOX_EXEC_ARGS, pystr_of ''["/bin/echo", "hello"]'')]\<close>
  have a: "environ st STONEBOX_MEMORY_LIMIT_MB = Some (pystr_of ''not_a_number'')
      \<and> pystr_of ''not_a_number'' \<noteq> []
      \<and> (py_int reference (pystr_of ''not_a_number'') = Inl ValueError
          \<or> (\<exists>n. py_int reference (pystr_of ''not_a_number'') = Inr n
                \<and> setrlimit_raises reference RLIMIT_AS (n * 1024 * 1024, n * 1024 * 1024) (rlimits st)
                    = Some ValueError))"
    by (simp add: st_def started_def reference_def ref_int_values)
  have b: "environ st STONEBOX_PROCESS_LIMIT = Some (pystr_of ''9223372036854775808'')
      \<and> pystr_of ''9223372036854775808'' \<noteq> []
      \<and> (py_int reference (pystr_of ''9223372036854775808'') = Inl OverflowError
          \<or> (\<exists>n. py_int reference (pystr_of ''9223372036854775808'') = Inr n
                \<and> setrlimit_raises reference RLIMIT_NPROC (n, n)
                     (rlimits (set_memory_limit reference (environ st STONEBOX_MEMORY_LIMIT_MB) st))
                    = Some OverflowError))"
    by (simp add: st_def started_def reference_def ref_int_values ref_setrlimit_values
          variables_distinct)
  have c: "fst (set_limits_and_exec reference st')
      = Replaced (PyStr (pystr_of ''/bin/echo''))
           (PyList [PyStr (pystr_of ''/bin/echo''), PyStr (pystr_of ''hello'')])"
    by (simp add: st'_def run_defs)
  have d: "printed st (set_limits_and_exec reference
        (st\<lparr>environ := (environ st)(STONEBOX_MEMORY_LIMIT_MB := None)\<rparr>))
      = [[Lit ''Stonebox Unix Limiter: Failed to set process limit: '', Exn OverflowError]]"
    by (simp add: st_def run_defs)
  have e: "fst (set_limits_and_exec reference
        (st\<lparr>environ := (environ st)(STONEBOX_MEMORY_LIMIT_MB := None)\<rparr>))
      = fst (set_limits_and_exec reference st')"
    by (simp add: st_def st'_def run_defs)
  have f: "stderr st = []"
    by (simp add: st_def started_def)
  have g: "py_int reference (pystr_of ''not_a_number'') = Inl ValueError"
    by (simp add: reference_def ref_int_values)
  show ?thesis
    using limit_failure_is_not_fatal
      [of st "pystr_of ''not_a_number''" reference ValueError
          "pystr_of ''9223372036854775808''" OverflowError]
      a b c d e f g
    unfolding st_def [symmetric] st'_def [symmetric]
    by (simp add: printed_def)
qed

subsection \<open>C7: the environment of the new image\<close>

text \<open>
  Claim C7. When the run reaches the replacement (the value parsed and has an element 0), the
  environment is the one the process started with, without
  \<^verbatim>\<open>STONEBOX_MEMORY_LIMIT_MB\<close>, \<^verbatim>\<open>STONEBOX_PROCESS_LIMIT\<close> and \<^verbatim>\<open>STONEBOX_EXEC_ARGS\<close>,
  whether or not they were set, and with every other variable as it was; \<^verbatim>\<open>os.execvp\<close>
  is called in that environment.
\<close>

theorem environment_scrubbed_for_exec:
  assumes "environ st STONEBOX_EXEC_ARGS = Some s" and "s \<noteq> []" and "json_loads p s = Inr v"
    and "item0 v = Inr c"
  shows "environ (snd (set_limits_and_exec p st)) = environ st |` (- stonebox_variables)
    \<and> fst (set_limits_and_exec p st) =
         (case execvp_raises p c v (environ (snd (set_limits_and_exec p st)))
                 (rlimits (snd (set_limits_and_exec p st))) of
            None \<Rightarrow> Replaced c v
          | Some e \<Rightarrow> if e = FileNotFoundError then Exited 127 else Exited 126)"
  using assms
  by (auto simp: set_limits_and_exec_alt parse_and_exec_def scrub_and_exec_unfold
        limits_applied_frame eprint_def split: option.splits)

text \<open>
  C7 on the reference platform: two of the three variables are set, one is not, and
  \<^verbatim>\<open>HOME\<close> is kept.
\<close>

theorem environment_scrubbed_for_exec_witness:
  \<open>environ (snd (set_limits_and_exec reference
        (started [(STONEBOX_MEMORY_LIMIT_MB, pystr_of ''64''),
                  (STONEBOX_EXEC_ARGS, pystr_of ''["/bin/echo", "hello"]''),
                  (pystr_of ''HOME'', pystr_of ''/root'')]))) STONEBOX_MEMORY_LIMIT_MB = None
   \<and> environ (snd (set_limits_and_exec reference
        (started [(STONEBOX_MEMORY_LIMIT_MB, pystr_of ''64''),
                  (STONEBOX_EXEC_ARGS, pystr_of ''["/bin/echo", "hello"]''),
                  (pystr_of ''HOME'', pystr_of ''/root'')]))) STONEBOX_PROCESS_LIMIT = None
   \<and> environ (snd (set_limits_and_exec reference
        (started [(STONEBOX_MEMORY_LIMIT_MB, pystr_of ''64''),
                  (STONEBOX_EXEC_ARGS, pystr_of ''["/bin/echo", "hello"]''),
                  (pystr_of ''HOME'', pystr_of ''/root'')]))) STONEBOX_EXEC_ARGS = None
   \<and> environ (snd (set_limits_and_exec reference
        (started [(STONEBOX_MEMORY_LIMIT_MB, pystr_of ''64''),
                  (STONEBOX_EXEC_ARGS, pystr_of ''["/bin/echo", "hello"]''),
                  (pystr_of ''HOME'', pystr_of ''/root'')]))) (pystr_of ''HOME'')
       = Some (pystr_of ''/root'')
   \<and> fst (set_limits_and_exec reference
        (started [(STONEBOX_MEMORY_LIMIT_MB, pystr_of ''64''),
                  (STONEBOX_EXEC_ARGS, pystr_of ''["/bin/echo", "hello"]''),
                  (pystr_of ''HOME'', pystr_of ''/root'')]))
       = Replaced (PyStr (pystr_of ''/bin/echo''))
           (PyList [PyStr (pystr_of ''/bin/echo''), PyStr (pystr_of ''hello'')])\<close>
proof -
  define st where \<open>st = started [(STONEBOX_MEMORY_LIMIT_MB, pystr_of ''64''),
                  (STONEBOX_EXEC_ARGS, pystr_of ''["/bin/echo", "hello"]''),
                  (pystr_of ''HOME'', pystr_of ''/root'')]\<close>
  have a: \<open>environ st STONEBOX_EXEC_ARGS = Some (pystr_of ''["/bin/echo", "hello"]'')\<close>
    by (simp add: st_def started_def variables_distinct)
  have b: \<open>pystr_of ''["/bin/echo", "hello"]'' \<noteq> []\<close>
    by simp
  have c: \<open>json_loads reference (pystr_of ''["/bin/echo", "hello"]'')
      = Inr (PyList [PyStr (pystr_of ''/bin/echo''), PyStr (pystr_of ''hello'')])\<close>
    by (simp add: reference_def ref_json_loads_echo)
  have d: "item0 (PyList [PyStr (pystr_of ''/bin/echo''), PyStr (pystr_of ''hello'')])
      = Inr (PyStr (pystr_of ''/bin/echo''))"
    by simp
  have home: "pystr_of ''HOME'' \<notin> stonebox_variables"
    by (simp add: stonebox_variables_def STONEBOX_MEMORY_LIMIT_MB_def STONEBOX_PROCESS_LIMIT_def
          STONEBOX_EXEC_ARGS_def pystr_of_def)
  have e: "environ st (pystr_of ''HOME'') = Some (pystr_of ''/root'')"
    using home
    by (simp add: st_def started_def stonebox_variables_def)
  have f: "execvp_raises reference (PyStr (pystr_of ''/bin/echo''))
      (PyList [PyStr (pystr_of ''/bin/echo''), PyStr (pystr_of ''hello'')]) env table = None"
    for env table
    by (simp add: reference_def ref_execvp_echo)
  show ?thesis
    using environment_scrubbed_for_exec [OF a b c d] home e f
    unfolding st_def [symmetric]
    by (simp add: restrict_map_def variables_member)
qed

subsection \<open>C8: where the diagnostics go\<close>

text \<open>
  Claim C8. On every path the standard output of the process is what it was at the start;
  the error stream keeps what it held and every line the run adds to it begins with
  \<^verbatim>\<open>Stonebox Unix Limiter: \<close>.
\<close>

theorem diagnostics_tagged_on_stderr:
  "stdout (snd (set_limits_and_exec p st)) = stdout st
   \<and> take (length (stderr st)) (stderr (snd (set_limits_and_exec p st))) = stderr st
   \<and> list_all tagged (printed st (set_limits_and_exec p st))"
proof -
  obtain l1 where l1: "stderr (set_memory_limit p (environ st STONEBOX_MEMORY_LIMIT_MB) st)
      = stderr st @ l1" "list_all tagged l1"
    using set_memory_limit_stderr by blast
  obtain l2 where l2: "stderr (limits_applied p st)
      = stderr (set_memory_limit p (environ st STONEBOX_MEMORY_LIMIT_MB) st) @ l2"
      "list_all tagged l2"
    unfolding limits_applied_def using set_process_limit_stderr by blast
  obtain l3 where l3: "stderr (snd (set_limits_and_exec p st)) = stderr (limits_applied p st) @ l3"
      "list_all tagged l3"
    unfolding set_limits_and_exec_alt using parse_and_exec_stderr by blast
  have "stderr (snd (set_limits_and_exec p st)) = stderr st @ (l1 @ l2 @ l3)"
    using l1 l2 l3 by simp
  then show ?thesis
    using l1 l2 l3
    by (simp add: printed_def set_limits_and_exec_alt parse_and_exec_frame limits_applied_frame)
qed

text \<open>
  C8 on the reference platform, for a run that prints two lines.
\<close>

theorem diagnostics_tagged_on_stderr_witness:
  \<open>stdout (snd (set_limits_and_exec reference
        (started [(STONEBOX_MEMORY_LIMIT_MB, pystr_of ''not_a_number''),
                  (STONEBOX_EXEC_ARGS, pystr_of ''["/etc/passwd"]'')]))) = []
   \<and> stderr (snd (set_limits_and_exec reference
        (started [(STONEBOX_MEMORY_LIMIT_MB, pystr_of ''not_a_number''),
                  (STONEBOX_EXEC_ARGS, pystr_of ''["/etc/passwd"]'')])))
       = [[Lit ''Stonebox Unix Limiter: Failed to set memory limit: '', Exn ValueError],
          [Lit ''Stonebox Unix Limiter: Failed to exec command '',
           Val (PyStr (pystr_of ''/etc/passwd'')), Lit '': '', Exn PermissionError]]
   \<and> list_all tagged (stderr (snd (set_limits_and_exec reference
        (started [(STONEBOX_MEMORY_LIMIT_MB, pystr_of ''not_a_number''),
                  (STONEBOX_EXEC_ARGS, pystr_of ''["/etc/passwd"]'')]))))\<close>
proof -
  define st where \<open>st = started [(STONEBOX_MEMORY_LIMIT_MB, pystr_of ''not_a_number''),
                  (STONEBOX_EXEC_ARGS, pystr_of ''["/etc/passwd"]'')]\<close>
  have a: "stderr st = [] \<and> stdout st = []"
    by (simp add: st_def started_def)
  have b: "stderr (snd (set_limits_and_exec reference st))
       = [[Lit ''Stonebox Unix Limiter: Failed to set memory limit: '', Exn ValueError],
          [Lit ''Stonebox Unix Limiter: Failed to exec command '',
           Val (PyStr (pystr_of ''/etc/passwd'')), Lit '': '', Exn PermissionError]]"
    by (simp add: st_def run_defs)
  show ?thesis
    using diagnostics_tagged_on_stderr [of reference st] a b
    unfolding st_def [symmetric]
    by (simp add: printed_def)
qed

subsection \<open>C9: limits are applied before the argument vector is looked at\<close>

text \<open>
  Claim C9. When the run ends with status 120 or 121, the limit table is the one the limit
  steps have left, nothing is put back: a memory limit that was accepted is in force, and so
  is a process limit that was accepted.
\<close>

theorem limits_changed_despite_argument_failure:
  assumes "fst (set_limits_and_exec p st) = Exited 120 \<or> fst (set_limits_and_exec p st) = Exited 121"
  shows "rlimits (snd (set_limits_and_exec p st)) = rlimits (limits_applied p st)
    \<and> (environ st STONEBOX_MEMORY_LIMIT_MB = Some s \<and> s \<noteq> [] \<and> py_int p s = Inr n
         \<and> setrlimit_raises p RLIMIT_AS (n * 1024 * 1024, n * 1024 * 1024) (rlimits st) = None
        \<longrightarrow> rlimits (snd (set_limits_and_exec p st)) RLIMIT_AS = (n * 1024 * 1024, n * 1024 * 1024))
    \<and> (environ st STONEBOX_PROCESS_LIMIT = Some s' \<and> s' \<noteq> [] \<and> py_int p s' = Inr k
         \<and> setrlimit_raises p RLIMIT_NPROC (k, k)
              (rlimits (set_memory_limit p (environ st STONEBOX_MEMORY_LIMIT_MB) st)) = None
        \<longrightarrow> rlimits (snd (set_limits_and_exec p st)) RLIMIT_NPROC = (k, k))"
proof -
  have a: "rlimits (snd (set_limits_and_exec p st)) = rlimits (limits_applied p st)"
    by (simp add: set_limits_and_exec_alt parse_and_exec_frame)
  have b: "rlimits (limits_applied p st) RLIMIT_AS = (n * 1024 * 1024, n * 1024 * 1024)"
    if "environ st STONEBOX_MEMORY_LIMIT_MB = Some s" "s \<noteq> []" "py_int p s = Inr n"
      "setrlimit_raises p RLIMIT_AS (n * 1024 * 1024, n * 1024 * 1024) (rlimits st) = None"
    using that by (simp add: limits_applied_def set_process_limit_frame set_memory_limit_accepted)
  have c: "rlimits (limits_applied p st) RLIMIT_NPROC = (k, k)"
    if "environ st STONEBOX_PROCESS_LIMIT = Some s'" "s' \<noteq> []" "py_int p s' = Inr k"
      "setrlimit_raises p RLIMIT_NPROC (k, k)
         (rlimits (set_memory_limit p (environ st STONEBOX_MEMORY_LIMIT_MB) st)) = None"
    using that by (simp add: limits_applied_def set_process_limit_accepted)
  show ?thesis
    using a b c by simp
qed

text \<open>
  C9 on the reference platform: no argument vector, both limits given. The run ends with
  status 120 and both entries of the table have changed.
\<close>

theorem limits_changed_despite_argument_failure_witness:
  "fst (set_limits_and_exec reference
        (started [(STONEBOX_MEMORY_LIMIT_MB, pystr_of ''64''),
                  (STONEBOX_PROCESS_LIMIT, pystr_of ''10'')])) = Exited 120
   \<and> rlimits (started [(STONEBOX_MEMORY_LIMIT_MB, pystr_of ''64''),
                  (STONEBOX_PROCESS_LIMIT, pystr_of ''10'')]) RLIMIT_AS = (- 1, - 1)
   \<and> rlimits (started [(STONEBOX_MEMORY_LIMIT_MB, pystr_of ''64''),
                  (STONEBOX_PROCESS_LIMIT, pystr_of ''10'')]) RLIMIT_NPROC = (- 1, - 1)
   \<and> rlimits (snd (set_limits_and_exec reference
        (started [(STONEBOX_MEMORY_LIMIT_MB, pystr_of ''64''),
                  (STONEBOX_PROCESS_LIMIT, pystr_of ''10'')]))) RLIMIT_AS = (67108864, 67108864)
   \<and> rlimits (snd (set_limits_and_exec reference
        (started [(STONEBOX_MEMORY_LIMIT_MB, pystr_of ''64''),
                  (STONEBOX_PROCESS_LIMIT, pystr_of ''10'')]))) RLIMIT_NPROC = (10, 10)"
proof -
  define st where "st = started [(STONEBOX_MEMORY_LIMIT_MB, pystr_of ''64''),
                  (STONEBOX_PROCESS_LIMIT, pystr_of ''10'')]"
  have a: "fst (set_limits_and_exec reference st) = Exited 120"
    by (simp add: st_def run_defs)
  then have a': "fst (set_limits_and_exec reference st) = Exited 120
      \<or> fst (set_limits_and_exec reference st) = Exited 121"
    by simp
  have m: "environ st STONEBOX_MEMORY_LIMIT_MB = Some (pystr_of ''64'') \<and> pystr_of ''64'' \<noteq> []
      \<and> py_int reference (pystr_of ''64'') = Inr 64
      \<and> setrlimit_raises reference RLIMIT_AS (64 * 1024 * 1024, 64 * 1024 * 1024) (rlimits st) = None"
    by (simp add: st_def started_def reference_def ref_int_values ref_setrlimit_values)
  have n: "environ st STONEBOX_PROCESS_LIMIT = Some (pystr_of ''10'') \<and> pystr_of ''10'' \<noteq> []
      \<and> py_int reference (pystr_of ''10'') = Inr 10
      \<and> setrlimit_raises reference RLIMIT_NPROC (10, 10)
           (rlimits (set_memory_limit reference (environ st STONEBOX_MEMORY_LIMIT_MB) st)) = None"
    by (simp add: st_def started_def reference_def ref_int_values ref_setrlimit_values
          variables_distinct set_memory_limit_frame)
  have i: "rlimits st RLIMIT_AS = (- 1, - 1) \<and> rlimits st RLIMIT_NPROC = (- 1, - 1)"
    by (simp add: st_def started_def)
  note t = limits_changed_despite_argument_failure
      [OF a', of "pystr_of ''64''" 64 "pystr_of ''10''" 10]
  have x: "rlimits (snd (set_limits_and_exec reference st)) RLIMIT_AS
      = (64 * 1024 * 1024, 64 * 1024 * 1024)"
    using t m by blast
  have y: "rlimits (snd (set_limits_and_exec reference st)) RLIMIT_NPROC = (10, 10)"
    using t n by blast
  show ?thesis
    using a x y i
    unfolding st_def [symmetric]
    by simp
qed

subsection \<open>C10: a limit variable set to the empty string\<close>

text \<open>
  Claim C10. A limit variable that is present and empty is treated as an absent one: the
  step sets no limit and prints nothing, and what can be seen of the whole run (outcome,
  limit table, both streams) is the same as for the process without the variable.
\<close>

theorem empty_limit_variable_as_absent:
  "set_memory_limit p (Some []) st = st
   \<and> set_process_limit p (Some []) st = st
   \<and> observable (set_limits_and_exec p (st\<lparr>environ := (environ st)(STONEBOX_MEMORY_LIMIT_MB \<mapsto> [])\<rparr>))
     = observable (set_limits_and_exec p (st\<lparr>environ := (environ st)(STONEBOX_MEMORY_LIMIT_MB := None)\<rparr>))
   \<and> observable (set_limits_and_exec p (st\<lparr>environ := (environ st)(STONEBOX_PROCESS_LIMIT \<mapsto> [])\<rparr>))
     = observable (set_limits_and_exec p (st\<lparr>environ := (environ st)(STONEBOX_PROCESS_LIMIT := None)\<rparr>))"
  using empty_memory_limit_run [of p st] empty_process_limit_run [of p st]
  by (simp add: set_memory_limit_def set_process_limit_def)

text \<open>
  C10 on the reference platform, for an empty \<^verbatim>\<open>STONEBOX_MEMORY_LIMIT_MB\<close>.
\<close>

theorem empty_limit_variable_as_absent_witness:
  \<open>observable (set_limits_and_exec reference
        (started [(STONEBOX_MEMORY_LIMIT_MB, []),
                  (STONEBOX_EXEC_ARGS, pystr_of ''["/bin/echo", "hello"]'')]))
     = observable (set_limits_and_exec reference
        (started [(STONEBOX_EXEC_ARGS, pystr_of ''["/bin/echo", "hello"]'')]))
   \<and> rlimits (snd (set_limits_and_exec reference
        (started [(STONEBOX_MEMORY_LIMIT_MB, []),
                  (STONEBOX_EXEC_ARGS, pystr_of ''["/bin/echo", "hello"]'')]))) RLIMIT_AS = (- 1, - 1)
   \<and> stderr (snd (set_limits_and_exec reference
        (started [(STONEBOX_MEMORY_LIMIT_MB, []),
                  (STONEBOX_EXEC_ARGS, pystr_of ''["/bin/echo", "hello"]'')]))) = []\<close>
proof -
  define st where \<open>st = started [(STONEBOX_EXEC_ARGS, pystr_of ''["/bin/echo", "hello"]'')]\<close>
  have a: \<open>st\<lparr>environ := (environ st)(STONEBOX_MEMORY_LIMIT_MB \<mapsto> [])\<rparr>
      = started [(STONEBOX_MEMORY_LIMIT_MB, []),
                  (STONEBOX_EXEC_ARGS, pystr_of ''["/bin/echo", "hello"]'')]\<close>
    by (simp add: st_def started_def)
  have b: "st\<lparr>environ := (environ st)(STONEBOX_MEMORY_LIMIT_MB := None)\<rparr> = st"
    by (simp add: st_def started_def variables_distinct)
  have c: "rlimits (snd (set_limits_and_exec reference st)) RLIMIT_AS = (- 1, - 1)
      \<and> stderr (snd (set_limits_and_exec reference st)) = []"
    by (simp add: st_def run_defs)
  show ?thesis
    using empty_limit_variable_as_absent [of reference st] c
    unfolding a b st_def [symmetric]
    by (simp add: observable_def)
qed

end
